theory Spec2Isabelle
  imports Complex_Main
begin

section \<open>Responses and acting users\<close>

text \<open>
  Every failing response of the server has the shape
  \<^verbatim>\<open>res.status(n).json({ success: false, error: msg })\<close>.
  It is modelled by its status code and its message.  Where the source gives the
  text (a literal, or a Joi \<^verbatim>\<open>.messages({...})\<close> entry) the message is that text;
  where a Joi rule is violated for which the schema carries no text of its own, the
  message is Joi's built-in one for that key and rule, written \<open>JoiDefault key rule\<close>.
\<close>

datatype message = Text string | JoiDefault string string

record http_error =
  status :: nat
  error :: message

text \<open>
  A middleware either answers the request itself (\<open>Some e\<close>) or calls
  \<^verbatim>\<open>next()\<close> (\<open>None\<close>); a route is its middlewares in order, then its handler.
  A handler returns its answer together with the store it leaves behind.

  The \<^verbatim>\<open>auth\<close> middleware resolves the bearer token to a row of \<^verbatim>\<open>users\<close>
  and stores it in \<^verbatim>\<open>req.user\<close>; the routes below start from that resolved user.
  The column \<^verbatim>\<open>users.role\<close> is \<^verbatim>\<open>ENUM('applicant', 'employer', 'admin')\<close>.
\<close>

datatype role = Applicant | Employer | Admin

record user =
  user_id :: int
  user_role :: role

definition forbidden :: http_error where
  "forbidden = \<lparr>status = 403, error = Text ''Access denied. Insufficient permissions.''\<rparr>"

definition authorize :: "role list \<Rightarrow> user \<Rightarrow> http_error option" where
  "authorize roles u = (if user_role u \<in> set roles then None else Some forbidden)"

section \<open>Validation middleware (server/middleware/validation.js)\<close>

text \<open>
  Request bodies are modelled at the types their schemas declare: an absent key is
  \<open>None\<close>, a \<^verbatim>\<open>Joi.string()\<close> field is a string, a \<^verbatim>\<open>Joi.number()\<close>
  field a number, a \<^verbatim>\<open>Joi.date()\<close> field an instant in milliseconds.  Joi checks the
  keys in the order of the schema and, with its default \<^verbatim>\<open>abortEarly\<close>, reports the
  first violation only; \<^verbatim>\<open>Joi.string()\<close> refuses the empty string.  The two
  salaries of a job body are the exception: \<^verbatim>\<open>validateJob\<close> compares them as
  they arrived, so they are kept as the JSON values they are, a number or a string.
\<close>

fun first_violation :: "message option list \<Rightarrow> message option" where
  "first_violation [] = None"
| "first_violation (Some m # cs) = Some m"
| "first_violation (None # cs) = first_violation cs"

definition bad_request :: "message \<Rightarrow> http_error" where
  "bad_request m = \<lparr>status = 400, error = m\<rparr>"

subsection \<open>validateRegistration\<close>

record registration_body =
  reg_email :: "string option"
  reg_password :: "string option"
  reg_first_name :: "string option"
  reg_last_name :: "string option"
  reg_phone :: "string option"
  reg_role :: "string option"

text \<open>
  The pattern \<^verbatim>\<open>/^[+]?[1-9][\d\s\-\(\)]{7,15}$/\<close> on a string of ASCII characters:
  \<^verbatim>\<open>\s\<close> is tab, line feed, vertical tab, form feed, carriage return or space.
\<close>

definition phone_char :: "char \<Rightarrow> bool" where
  "phone_char c =
     (c \<in> set ''0123456789'' \<or> c \<in> set [CHR 0x09, CHR 0x0A, CHR 0x0B, CHR 0x0C, CHR 0x0D, CHR 0x20]
      \<or> c \<in> set ''-()'')"

definition phone_tail :: "string \<Rightarrow> bool" where
  "phone_tail s =
     (case s of [] \<Rightarrow> False
      | d # rest \<Rightarrow> d \<in> set ''123456789'' \<and> 7 \<le> length rest \<and> length rest \<le> 15
          \<and> list_all phone_char rest)"

definition phone_pattern :: "string \<Rightarrow> bool" where
  "phone_pattern s =
     (case s of [] \<Rightarrow> False
      | c # rest \<Rightarrow> if c = CHR ''+'' then phone_tail rest else phone_tail s)"

text \<open>
  \<^verbatim>\<open>Joi.string().email()\<close> is the library's own address check; it is the parameter
  \<open>email_ok\<close>.
\<close>

definition check_email :: "(string \<Rightarrow> bool) \<Rightarrow> string option \<Rightarrow> message option" where
  "check_email email_ok v =
     (case v of None \<Rightarrow> Some (Text ''Email is required'')
      | Some s \<Rightarrow>
          if s = [] then Some (JoiDefault ''email'' ''string.empty'')
          else if \<not> email_ok s then Some (Text ''Please provide a valid email address'')
          else None)"

definition check_password :: "string option \<Rightarrow> message option" where
  "check_password v =
     (case v of None \<Rightarrow> Some (Text ''Password is required'')
      | Some s \<Rightarrow>
          if s = [] then Some (JoiDefault ''password'' ''string.empty'')
          else if length s < 6 then Some (Text ''Password must be at least 6 characters long'')
          else None)"

definition check_first_name :: "string option \<Rightarrow> message option" where
  "check_first_name v =
     (case v of None \<Rightarrow> Some (Text ''First name is required'')
      | Some s \<Rightarrow>
          if s = [] then Some (JoiDefault ''first_name'' ''string.empty'')
          else if length s < 2 then Some (Text ''First name must be at least 2 characters long'')
          else if length s > 50 then Some (Text ''First name cannot exceed 50 characters'')
          else None)"

definition check_last_name :: "string option \<Rightarrow> message option" where
  "check_last_name v =
     (case v of None \<Rightarrow> Some (Text ''Last name is required'')
      | Some s \<Rightarrow>
          if s = [] then Some (JoiDefault ''last_name'' ''string.empty'')
          else if length s < 2 then Some (Text ''Last name must be at least 2 characters long'')
          else if length s > 50 then Some (Text ''Last name cannot exceed 50 characters'')
          else None)"

definition check_phone :: "string option \<Rightarrow> message option" where
  "check_phone v =
     (case v of None \<Rightarrow> None
      | Some s \<Rightarrow>
          if s = [] then Some (JoiDefault ''phone'' ''string.empty'')
          else if \<not> phone_pattern s then Some (Text ''Please provide a valid phone number'')
          else None)"

definition check_role :: "string option \<Rightarrow> message option" where
  "check_role v =
     (case v of None \<Rightarrow> None
      | Some s \<Rightarrow>
          if s \<in> set [''applicant'', ''employer''] then None
          else Some (JoiDefault ''role'' ''any.only''))"

definition registration_schema ::
  "(string \<Rightarrow> bool) \<Rightarrow> registration_body \<Rightarrow> message option" where
  "registration_schema email_ok b =
     first_violation
       [check_email email_ok (reg_email b), check_password (reg_password b),
        check_first_name (reg_first_name b), check_last_name (reg_last_name b),
        check_phone (reg_phone b), check_role (reg_role b)]"

definition validateRegistration ::
  "(string \<Rightarrow> bool) \<Rightarrow> registration_body \<Rightarrow> http_error option" where
  "validateRegistration email_ok b = map_option bad_request (registration_schema email_ok b)"

subsection \<open>validateJob\<close>

datatype js_value = JNum rat | JStr string

record job_body =
  jb_title :: "string option"
  jb_description :: "string option"
  jb_requirements :: "string option"
  jb_location :: "string option"
  jb_salary_min :: "js_value option"
  jb_salary_max :: "js_value option"
  jb_employment_type :: "string option"
  jb_experience_level :: "string option"
  jb_application_deadline :: "int option"

definition max_safe_integer :: rat where
  "max_safe_integer = 9007199254740991"

text \<open>
  \<^verbatim>\<open>Joi.number().positive()\<close>: a number outside the safe-integer range is refused
  (\<^verbatim>\<open>number.unsafe\<close>) before the sign is looked at.
\<close>

definition check_positive :: "string \<Rightarrow> string \<Rightarrow> rat option \<Rightarrow> message option" where
  "check_positive key msg v =
     (case v of None \<Rightarrow> None
      | Some x \<Rightarrow>
          if x > max_safe_integer \<or> x < - max_safe_integer
          then Some (JoiDefault key ''number.unsafe'')
          else if x \<le> 0 then Some (Text msg)
          else None)"

text \<open>
  \<^verbatim>\<open>Joi.number()\<close> validates with its default \<^verbatim>\<open>convert\<close>: a string that
  writes a number is converted and then checked like that number, any other string is
  refused (\<^verbatim>\<open>number.base\<close>).  The conversion of a string is the library's own; it is
  the parameter \<open>to_number\<close> (\<open>None\<close> when the string writes no number).  The
  middleware keeps only \<^verbatim>\<open>error\<close> of what \<^verbatim>\<open>schema.validate\<close> returns: the
  converted copy is dropped and \<^verbatim>\<open>req.body\<close> stays as it arrived.
\<close>

definition joi_number :: "(string \<Rightarrow> rat option) \<Rightarrow> js_value \<Rightarrow> rat option" where
  "joi_number to_number v = (case v of JNum x \<Rightarrow> Some x | JStr s \<Rightarrow> to_number s)"

definition check_positive_value ::
  "(string \<Rightarrow> rat option) \<Rightarrow> string \<Rightarrow> string \<Rightarrow> js_value option \<Rightarrow> message option" where
  "check_positive_value to_number key msg v =
     (case v of None \<Rightarrow> None
      | Some x \<Rightarrow>
          (case joi_number to_number x of
             None \<Rightarrow> Some (JoiDefault key ''number.base'')
           | Some r \<Rightarrow> check_positive key msg (Some r)))"

definition check_optional_string :: "string \<Rightarrow> string option \<Rightarrow> message option" where
  "check_optional_string key v =
     (case v of None \<Rightarrow> None
      | Some s \<Rightarrow> if s = [] then Some (JoiDefault key ''string.empty'') else None)"

definition check_max_string ::
  "string \<Rightarrow> nat \<Rightarrow> string \<Rightarrow> string option \<Rightarrow> message option" where
  "check_max_string key n msg v =
     (case v of None \<Rightarrow> None
      | Some s \<Rightarrow>
          if s = [] then Some (JoiDefault key ''string.empty'')
          else if length s > n then Some (Text msg)
          else None)"

definition check_valid :: "string \<Rightarrow> string list \<Rightarrow> string option \<Rightarrow> message option" where
  "check_valid key allowed v =
     (case v of None \<Rightarrow> None
      | Some s \<Rightarrow> if s \<in> set allowed then None else Some (JoiDefault key ''any.only''))"

definition check_job_title :: "string option \<Rightarrow> message option" where
  "check_job_title v =
     (case v of None \<Rightarrow> Some (Text ''Job title is required'')
      | Some s \<Rightarrow>
          if s = [] then Some (JoiDefault ''title'' ''string.empty'')
          else if length s < 5 then Some (Text ''Job title must be at least 5 characters long'')
          else if length s > 200 then Some (Text ''Job title cannot exceed 200 characters'')
          else None)"

definition check_job_description :: "string option \<Rightarrow> message option" where
  "check_job_description v =
     (case v of None \<Rightarrow> Some (Text ''Job description is required'')
      | Some s \<Rightarrow>
          if s = [] then Some (JoiDefault ''description'' ''string.empty'')
          else if length s < 50
          then Some (Text ''Job description must be at least 50 characters long'')
          else None)"

definition check_deadline :: "int \<Rightarrow> int option \<Rightarrow> message option" where
  "check_deadline now v =
     (case v of None \<Rightarrow> None
      | Some d \<Rightarrow>
          if d > now then None
          else Some (Text ''Application deadline must be in the future''))"

definition employment_types :: "string list" where
  "employment_types = [''full-time'', ''part-time'', ''contract'', ''internship'']"

definition experience_levels :: "string list" where
  "experience_levels = [''entry'', ''mid'', ''senior'', ''executive'']"

definition job_schema :: "(string \<Rightarrow> rat option) \<Rightarrow> int \<Rightarrow> job_body \<Rightarrow> message option" where
  "job_schema to_number now b =
     first_violation
       [check_job_title (jb_title b),
        check_job_description (jb_description b),
        check_optional_string ''requirements'' (jb_requirements b),
        check_max_string ''location'' 200 ''Location cannot exceed 200 characters''
          (jb_location b),
        check_positive_value to_number ''salary_min''
          ''Minimum salary must be a positive number'' (jb_salary_min b),
        check_positive_value to_number ''salary_max''
          ''Maximum salary must be a positive number'' (jb_salary_max b),
        check_valid ''employment_type'' employment_types (jb_employment_type b),
        check_valid ''experience_level'' experience_levels (jb_experience_level b),
        check_deadline now (jb_application_deadline b)]"

text \<open>
  The salary test of \<^verbatim>\<open>validateJob\<close>,
  \<^verbatim>\<open>req.body.salary_min && req.body.salary_max && req.body.salary_min > req.body.salary_max\<close>,
  on the values as they arrived.  A number is truthy when it is not zero, a string when
  it is not empty.  \<^verbatim>\<open>>\<close> compares two strings by their characters, the
  first difference deciding and a proper prefix being the smaller; in every other
  case it compares the numbers that the two values denote, and is false when one of
  them denotes none.  The test runs only after the schema has passed, when a string
  among the two is one that the conversion accepts.
\<close>

fun js_string_less :: "string \<Rightarrow> string \<Rightarrow> bool" where
  "js_string_less [] [] = False"
| "js_string_less [] (y # ys) = True"
| "js_string_less (x # xs) [] = False"
| "js_string_less (x # xs) (y # ys) =
     (if x = y then js_string_less xs ys else (of_char x :: nat) < of_char y)"

definition js_greater :: "(string \<Rightarrow> rat option) \<Rightarrow> js_value \<Rightarrow> js_value \<Rightarrow> bool" where
  "js_greater to_number a b =
     (case (a, b) of
        (JStr s, JStr t) \<Rightarrow> js_string_less t s
      | _ \<Rightarrow>
          (case (joi_number to_number a, joi_number to_number b) of
             (Some x, Some y) \<Rightarrow> x > y
           | _ \<Rightarrow> False))"

definition truthy :: "js_value \<Rightarrow> bool" where
  "truthy v = (case v of JNum x \<Rightarrow> x \<noteq> 0 | JStr s \<Rightarrow> s \<noteq> [])"

definition salary_range_violated :: "(string \<Rightarrow> rat option) \<Rightarrow> job_body \<Rightarrow> bool" where
  "salary_range_violated to_number b =
     (case (jb_salary_min b, jb_salary_max b) of
        (Some lo, Some hi) \<Rightarrow> truthy lo \<and> truthy hi \<and> js_greater to_number lo hi
      | _ \<Rightarrow> False)"

definition salary_range_error :: http_error where
  "salary_range_error =
     bad_request (Text ''Minimum salary cannot be greater than maximum salary'')"

definition validateJob :: "(string \<Rightarrow> rat option) \<Rightarrow> int \<Rightarrow> job_body \<Rightarrow> http_error option" where
  "validateJob to_number now b =
     (case job_schema to_number now b of
        Some m \<Rightarrow> Some (bad_request m)
      | None \<Rightarrow>
          if salary_range_violated to_number b then Some salary_range_error else None)"

subsection \<open>validateApplication\<close>

record application_body =
  ab_job_id :: "int option"
  ab_resume_id :: "int option"
  ab_cover_letter :: "string option"

text \<open>
  \<^verbatim>\<open>Joi.number().integer().positive().required()\<close> on an integer-typed field.
\<close>

definition check_id :: "string \<Rightarrow> string \<Rightarrow> string \<Rightarrow> int option \<Rightarrow> message option" where
  "check_id key required_msg positive_msg v =
     (case v of None \<Rightarrow> Some (Text required_msg)
      | Some n \<Rightarrow>
          if rat_of_int n > max_safe_integer \<or> rat_of_int n < - max_safe_integer
          then Some (JoiDefault key ''number.unsafe'')
          else if n \<le> 0 then Some (Text positive_msg)
          else None)"

definition application_schema :: "application_body \<Rightarrow> message option" where
  "application_schema b =
     first_violation
       [check_id ''job_id'' ''Job ID is required'' ''Job ID must be a positive number''
          (ab_job_id b),
        check_id ''resume_id'' ''Resume ID is required''
          ''Resume ID must be a positive number'' (ab_resume_id b),
        check_max_string ''cover_letter'' 2000
          ''Cover letter cannot exceed 2000 characters'' (ab_cover_letter b)]"

definition validateApplication :: "application_body \<Rightarrow> http_error option" where
  "validateApplication b = map_option bad_request (application_schema b)"

section \<open>The store (database/schema.sql, server/models)\<close>

text \<open>
  One record per table, with the columns that the routes read or write; the columns
  \<^verbatim>\<open>created_at\<close>, \<^verbatim>\<open>updated_at\<close> and \<^verbatim>\<open>applied_at\<close>, which the store maintains
  by itself, are left out.  Identifiers are the integers of the \<^verbatim>\<open>AUTO_INCREMENT\<close>
  primary keys, and the store keeps the next free one of every table it inserts into.
\<close>

record resume =
  resume_id :: int
  resume_user_id :: int
  resume_title :: string
  resume_summary :: "string option"
  experience_years :: int
  current_position :: "string option"
  current_company :: "string option"
  resume_location :: "string option"
  salary_expectation :: "rat option"
  resume_file_url :: "string option"
  is_public :: bool

record skill =
  skill_id :: int
  skill_name :: string
  skill_category :: string

record resume_skill =
  rs_id :: int
  rs_resume_id :: int
  rs_skill_id :: int
  proficiency_level :: string
  rs_years_experience :: int

record work_experience_body =
  company_name :: string
  position :: string
  we_start_date :: int
  we_end_date :: "int option"
  is_current :: "bool option"
  we_description :: "string option"
  we_location :: "string option"

record work_experience =
  we_id :: int
  we_resume_id :: int
  we_entry :: work_experience_body

record education_body =
  institution :: string
  degree :: string
  field_of_study :: "string option"
  edu_start_date :: "int option"
  edu_end_date :: "int option"
  grade :: "string option"
  edu_description :: "string option"

record education =
  edu_id :: int
  edu_resume_id :: int
  edu_entry :: education_body

record job =
  job_id :: int
  employer_id :: int
  job_title :: string
  job_description :: string
  requirements :: "string option"
  job_location :: "string option"
  salary_min :: "rat option"
  salary_max :: "rat option"
  employment_type :: string
  experience_level :: string
  is_active :: bool
  application_deadline :: "int option"

record application =
  app_id :: int
  app_job_id :: int
  applicant_id :: int
  app_resume_id :: int
  cover_letter :: "string option"
  app_status :: string
  app_notes :: "string option"

datatype insights =
    ResumeScoreInsights string
  | JobMatchInsights "string list" "string list" string
  | SkillGapInsights "string option" "string option" string

record ai_analysis =
  ai_id :: int
  ai_resume_id :: "int option"
  ai_job_id :: "int option"
  analysis_type :: string
  ai_score :: "rat option"
  ai_insights :: insights

record db =
  users :: "user list"
  resumes :: "resume list"
  skills :: "skill list"
  resume_skills :: "resume_skill list"
  work_experiences :: "work_experience list"
  educations :: "education list"
  jobs :: "job list"
  applications :: "application list"
  ai_analyses :: "ai_analysis list"
  next_resume_id :: int
  next_skill_id :: int
  next_resume_skill_id :: int
  next_work_experience_id :: int
  next_education_id :: int
  next_job_id :: int
  next_application_id :: int
  next_ai_analysis_id :: int

text \<open>
  Every foreign key of the schema is declared \<^verbatim>\<open>ON DELETE CASCADE\<close>; the handlers
  only call \<^verbatim>\<open>destroy()\<close> on the parent row.  A \<^verbatim>\<open>DELETE\<close> on a parent table
  therefore takes along the rows of the child tables that point to a deleted row:
  \<^item> \<^verbatim>\<open>jobs\<close>: \<^verbatim>\<open>applications.job_id\<close>, \<^verbatim>\<open>ai_analysis.job_id\<close>;
  \<^item> \<^verbatim>\<open>resumes\<close>: \<^verbatim>\<open>resume_skills.resume_id\<close>, \<^verbatim>\<open>work_experience.resume_id\<close>,
    \<^verbatim>\<open>education.resume_id\<close>, \<^verbatim>\<open>applications.resume_id\<close>, \<^verbatim>\<open>ai_analysis.resume_id\<close>;
  \<^item> \<^verbatim>\<open>users\<close>: \<^verbatim>\<open>resumes.user_id\<close>, \<^verbatim>\<open>jobs.employer_id\<close>,
    \<^verbatim>\<open>applications.applicant_id\<close>, each deleted child cascading in turn.
\<close>

definition points_into :: "int option \<Rightarrow> int list \<Rightarrow> bool" where
  "points_into ref ids = (case ref of None \<Rightarrow> False | Some i \<Rightarrow> i \<in> set ids)"

definition delete_jobs :: "(job \<Rightarrow> bool) \<Rightarrow> db \<Rightarrow> db" where
  "delete_jobs P st =
     (let gone = map job_id (filter P (jobs st)) in
      st\<lparr>jobs := filter (\<lambda>j. \<not> P j) (jobs st),
         applications := filter (\<lambda>a. app_job_id a \<notin> set gone) (applications st),
         ai_analyses := filter (\<lambda>x. \<not> points_into (ai_job_id x) gone) (ai_analyses st)\<rparr>)"

definition delete_resumes :: "(resume \<Rightarrow> bool) \<Rightarrow> db \<Rightarrow> db" where
  "delete_resumes P st =
     (let gone = map resume_id (filter P (resumes st)) in
      st\<lparr>resumes := filter (\<lambda>r. \<not> P r) (resumes st),
         resume_skills := filter (\<lambda>l. rs_resume_id l \<notin> set gone) (resume_skills st),
         work_experiences :=
           filter (\<lambda>w. we_resume_id w \<notin> set gone) (work_experiences st),
         educations := filter (\<lambda>e. edu_resume_id e \<notin> set gone) (educations st),
         applications := filter (\<lambda>a. app_resume_id a \<notin> set gone) (applications st),
         ai_analyses :=
           filter (\<lambda>x. \<not> points_into (ai_resume_id x) gone) (ai_analyses st)\<rparr>)"

definition delete_users :: "(user \<Rightarrow> bool) \<Rightarrow> db \<Rightarrow> db" where
  "delete_users P st =
     (let gone = map user_id (filter P (users st));
          st1 = delete_resumes (\<lambda>r. resume_user_id r \<in> set gone) st;
          st2 = delete_jobs (\<lambda>j. employer_id j \<in> set gone) st1
      in st2\<lparr>users := filter (\<lambda>u. \<not> P u) (users st2),
             applications :=
               filter (\<lambda>a. applicant_id a \<notin> set gone) (applications st2)\<rparr>)"

text \<open>The three \<^verbatim>\<open>destroy()\<close> calls on one parent row, by primary key.\<close>

definition destroy_job :: "int \<Rightarrow> db \<Rightarrow> db" where
  "destroy_job jid = delete_jobs (\<lambda>j. job_id j = jid)"

definition destroy_resume :: "int \<Rightarrow> db \<Rightarrow> db" where
  "destroy_resume rid = delete_resumes (\<lambda>r. resume_id r = rid)"

definition destroy_user :: "int \<Rightarrow> db \<Rightarrow> db" where
  "destroy_user uid = delete_users (\<lambda>u. user_id u = uid)"

text \<open>
  Referential integrity: every foreign key of every row points to a row of its parent
  table (\<^verbatim>\<open>ai_analysis.resume_id\<close> and \<^verbatim>\<open>ai_analysis.job_id\<close> may be null).
\<close>

definition ref_ok :: "int option \<Rightarrow> int list \<Rightarrow> bool" where
  "ref_ok ref ids = (case ref of None \<Rightarrow> True | Some i \<Rightarrow> i \<in> set ids)"

definition referential_integrity :: "db \<Rightarrow> bool" where
  "referential_integrity st =
     (let uids = map user_id (users st); rids = map resume_id (resumes st);
          jids = map job_id (jobs st); sids = map skill_id (skills st)
      in list_all (\<lambda>r. resume_user_id r \<in> set uids) (resumes st)
       \<and> list_all (\<lambda>l. rs_resume_id l \<in> set rids \<and> rs_skill_id l \<in> set sids)
           (resume_skills st)
       \<and> list_all (\<lambda>w. we_resume_id w \<in> set rids) (work_experiences st)
       \<and> list_all (\<lambda>e. edu_resume_id e \<in> set rids) (educations st)
       \<and> list_all (\<lambda>j. employer_id j \<in> set uids) (jobs st)
       \<and> list_all (\<lambda>a. app_job_id a \<in> set jids \<and> applicant_id a \<in> set uids
                      \<and> app_resume_id a \<in> set rids) (applications st)
       \<and> list_all (\<lambda>x. ref_ok (ai_resume_id x) rids \<and> ref_ok (ai_job_id x) jids)
           (ai_analyses st))"

text \<open>No row of any table refers to the user, resume or job with the given key.\<close>

definition no_reference_to_user :: "int \<Rightarrow> db \<Rightarrow> bool" where
  "no_reference_to_user uid st =
     (list_all (\<lambda>r. resume_user_id r \<noteq> uid) (resumes st)
      \<and> list_all (\<lambda>j. employer_id j \<noteq> uid) (jobs st)
      \<and> list_all (\<lambda>a. applicant_id a \<noteq> uid) (applications st))"

definition no_reference_to_resume :: "int \<Rightarrow> db \<Rightarrow> bool" where
  "no_reference_to_resume rid st =
     (list_all (\<lambda>l. rs_resume_id l \<noteq> rid) (resume_skills st)
      \<and> list_all (\<lambda>w. we_resume_id w \<noteq> rid) (work_experiences st)
      \<and> list_all (\<lambda>e. edu_resume_id e \<noteq> rid) (educations st)
      \<and> list_all (\<lambda>a. app_resume_id a \<noteq> rid) (applications st)
      \<and> list_all (\<lambda>x. ai_resume_id x \<noteq> Some rid) (ai_analyses st))"

definition no_reference_to_job :: "int \<Rightarrow> db \<Rightarrow> bool" where
  "no_reference_to_job jid st =
     (list_all (\<lambda>a. app_job_id a \<noteq> jid) (applications st)
      \<and> list_all (\<lambda>x. ai_job_id x \<noteq> Some jid) (ai_analyses st))"

section \<open>Job routes (server/routes/jobs.js)\<close>

definition server_error :: "string \<Rightarrow> http_error" where
  "server_error msg = \<lparr>status = 500, error = Text msg\<rparr>"

definition not_found :: "string \<Rightarrow> http_error" where
  "not_found msg = \<lparr>status = 404, error = Text msg\<rparr>"

subsection \<open>GET /api/jobs\<close>

text \<open>
  The query string: \<^verbatim>\<open>page\<close> and \<^verbatim>\<open>limit\<close> as the integers they denote
  (defaults 1 and 10), the filters as the strings sent (\<open>None\<close> when absent; the empty
  string is falsy).
\<close>

record job_query =
  q_page :: int
  q_limit :: int
  q_location :: "string option"
  q_employment_type :: "string option"
  q_experience_level :: "string option"
  q_salary_min :: "string option"
  q_salary_max :: "string option"
  q_search :: "string option"
  q_sort :: string
  q_order :: string

definition given :: "string option \<Rightarrow> bool" where
  "given v = (case v of None \<Rightarrow> False | Some s \<Rightarrow> s \<noteq> [])"

datatype js_exception = ReferenceError string

text \<open>
  The module binds \<^verbatim>\<open>express\<close>, \<^verbatim>\<open>router\<close>, \<^verbatim>\<open>Job\<close>, \<^verbatim>\<open>User\<close>,
  \<^verbatim>\<open>Application\<close>, \<^verbatim>\<open>Resume\<close>, \<^verbatim>\<open>auth\<close>, \<^verbatim>\<open>authorize\<close>, \<^verbatim>\<open>optionalAuth\<close>
  and \<^verbatim>\<open>validateJob\<close>.  The name \<^verbatim>\<open>Op\<close> is bound nowhere, so evaluating
  \<^verbatim>\<open>Op.iLike\<close>, \<^verbatim>\<open>Op.gte\<close>, \<^verbatim>\<open>Op.lte\<close> or \<^verbatim>\<open>Op.or\<close> throws a
  \<^verbatim>\<open>ReferenceError\<close>.  The statements that build \<^verbatim>\<open>whereClause\<close>, in their order:
\<close>

definition jobs_where :: "job_query \<Rightarrow> js_exception + (job \<Rightarrow> bool)" where
  "jobs_where q =
     (if given (q_location q) then Inl (ReferenceError ''Op'')
      else if given (q_salary_min q) then Inl (ReferenceError ''Op'')
      else if given (q_salary_max q) then Inl (ReferenceError ''Op'')
      else if given (q_search q) then Inl (ReferenceError ''Op'')
      else Inr (\<lambda>j. is_active j
             \<and> (given (q_employment_type q) \<longrightarrow> Some (employment_type j) = q_employment_type q)
             \<and> (given (q_experience_level q)
                  \<longrightarrow> Some (experience_level j) = q_experience_level q)))"

record pagination =
  current_page :: int
  total_pages :: "int option"
  total_items :: int
  items_per_page :: int

record job_page =
  page_rows :: "job list"
  page_pagination :: pagination

text \<open>
  \<^verbatim>\<open>Job.findAndCountAll\<close> with \<^verbatim>\<open>limit\<close>, \<^verbatim>\<open>offset\<close> and \<^verbatim>\<open>order\<close>.  The
  ordering of the store is the parameter \<open>order_by\<close> (\<open>None\<close> when the store refuses
  the column or direction); a negative limit or offset is refused by the store as well.
  \<^verbatim>\<open>Math.ceil(count / limit)\<close> is no finite number when \<^verbatim>\<open>limit\<close> is zero.
\<close>

definition list_jobs ::
  "(string \<Rightarrow> string \<Rightarrow> job list \<Rightarrow> job list option) \<Rightarrow> db \<Rightarrow> job_query
     \<Rightarrow> http_error + job_page" where
  "list_jobs order_by st q =
     (let offset = (q_page q - 1) * q_limit q in
      case jobs_where q of
        Inl e \<Rightarrow> Inl (server_error ''Failed to fetch jobs'')
      | Inr w \<Rightarrow>
          (case order_by (q_sort q) (q_order q) (filter w (jobs st)) of
             None \<Rightarrow> Inl (server_error ''Failed to fetch jobs'')
           | Some sorted_rows \<Rightarrow>
               if q_limit q < 0 \<or> offset < 0
               then Inl (server_error ''Failed to fetch jobs'')
               else Inr \<lparr>page_rows = take (nat (q_limit q)) (drop (nat offset) sorted_rows),
                         page_pagination =
                           \<lparr>current_page = q_page q,
                            total_pages =
                              (if q_limit q = 0 then None
                               else Some (\<lceil>rat_of_nat (length (filter w (jobs st)))
                                            / rat_of_int (q_limit q)\<rceil>)),
                            total_items = int (length (filter w (jobs st))),
                            items_per_page = q_limit q\<rparr>\<rparr>))"

subsection \<open>POST /api/jobs, PUT /api/jobs/:id, DELETE /api/jobs/:id, toggle-status\<close>

text \<open>
  \<^verbatim>\<open>Job.create\<close>: the columns \<^verbatim>\<open>title\<close> and \<^verbatim>\<open>description\<close> are
  \<^verbatim>\<open>NOT NULL\<close>; \<^verbatim>\<open>employment_type\<close>, \<^verbatim>\<open>experience_level\<close> and \<^verbatim>\<open>is_active\<close>
  take the defaults of the schema.  The two salary columns are \<^verbatim>\<open>DECIMAL\<close>: they
  take the number that the value of the body denotes, be it a number or a string.
\<close>

definition stored_number :: "(string \<Rightarrow> rat option) \<Rightarrow> js_value option \<Rightarrow> rat option" where
  "stored_number to_number v =
     (case v of None \<Rightarrow> None | Some x \<Rightarrow> joi_number to_number x)"

definition create_job_handler ::
  "(string \<Rightarrow> rat option) \<Rightarrow> db \<Rightarrow> user \<Rightarrow> job_body \<Rightarrow> (http_error + job) \<times> db" where
  "create_job_handler to_number st u b =
     (case (jb_title b, jb_description b) of
        (Some t, Some d) \<Rightarrow>
          (let j = \<lparr>job_id = next_job_id st, employer_id = user_id u, job_title = t,
                    job_description = d, requirements = jb_requirements b,
                    job_location = jb_location b,
                    salary_min = stored_number to_number (jb_salary_min b),
                    salary_max = stored_number to_number (jb_salary_max b),
                    employment_type =
                      (case jb_employment_type b of None \<Rightarrow> ''full-time'' | Some e \<Rightarrow> e),
                    experience_level =
                      (case jb_experience_level b of None \<Rightarrow> ''mid'' | Some e \<Rightarrow> e),
                    is_active = True,
                    application_deadline = jb_application_deadline b\<rparr>
           in (Inr j, st\<lparr>jobs := jobs st @ [j], next_job_id := next_job_id st + 1\<rparr>))
      | _ \<Rightarrow> (Inl (server_error ''Failed to create job''), st))"

definition create_job ::
  "(string \<Rightarrow> rat option) \<Rightarrow> db \<Rightarrow> user \<Rightarrow> int \<Rightarrow> job_body \<Rightarrow> (http_error + job) \<times> db" where
  "create_job to_number st u now b =
     (case authorize [Employer, Admin] u of
        Some e \<Rightarrow> (Inl e, st)
      | None \<Rightarrow>
          (case validateJob to_number now b of
             Some e \<Rightarrow> (Inl e, st)
           | None \<Rightarrow> create_job_handler to_number st u b))"

text \<open>\<^verbatim>\<open>job.update(req.body)\<close> writes the keys that the body carries.\<close>

definition or_else :: "'a option \<Rightarrow> 'a \<Rightarrow> 'a" where
  "or_else v d = (case v of None \<Rightarrow> d | Some x \<Rightarrow> x)"

definition or_keep :: "'a option \<Rightarrow> 'a option \<Rightarrow> 'a option" where
  "or_keep v old = (case v of None \<Rightarrow> old | Some x \<Rightarrow> Some x)"

definition apply_job_body :: "(string \<Rightarrow> rat option) \<Rightarrow> job_body \<Rightarrow> job \<Rightarrow> job" where
  "apply_job_body to_number b j =
     j\<lparr>job_title := or_else (jb_title b) (job_title j),
       job_description := or_else (jb_description b) (job_description j),
       requirements := or_keep (jb_requirements b) (requirements j),
       job_location := or_keep (jb_location b) (job_location j),
       salary_min := or_keep (stored_number to_number (jb_salary_min b)) (salary_min j),
       salary_max := or_keep (stored_number to_number (jb_salary_max b)) (salary_max j),
       employment_type := or_else (jb_employment_type b) (employment_type j),
       experience_level := or_else (jb_experience_level b) (experience_level j),
       application_deadline := or_keep (jb_application_deadline b) (application_deadline j)\<rparr>"

definition own_job :: "db \<Rightarrow> user \<Rightarrow> int \<Rightarrow> job option" where
  "own_job st u jid = find (\<lambda>j. job_id j = jid \<and> employer_id j = user_id u) (jobs st)"

definition update_job_handler ::
  "(string \<Rightarrow> rat option) \<Rightarrow> db \<Rightarrow> user \<Rightarrow> int \<Rightarrow> job_body \<Rightarrow> (http_error + job) \<times> db" where
  "update_job_handler to_number st u jid b =
     (case own_job st u jid of
        None \<Rightarrow> (Inl (not_found ''Job not found or access denied''), st)
      | Some j \<Rightarrow>
          (Inr (apply_job_body to_number b j),
           st\<lparr>jobs := map (\<lambda>x. if job_id x = job_id j
                                 then apply_job_body to_number b x else x)
                        (jobs st)\<rparr>))"

definition update_job ::
  "(string \<Rightarrow> rat option) \<Rightarrow> db \<Rightarrow> user \<Rightarrow> int \<Rightarrow> int \<Rightarrow> job_body
     \<Rightarrow> (http_error + job) \<times> db" where
  "update_job to_number st u now jid b =
     (case authorize [Employer, Admin] u of
        Some e \<Rightarrow> (Inl e, st)
      | None \<Rightarrow>
          (case validateJob to_number now b of
             Some e \<Rightarrow> (Inl e, st)
           | None \<Rightarrow> update_job_handler to_number st u jid b))"

definition delete_job :: "db \<Rightarrow> user \<Rightarrow> int \<Rightarrow> (http_error + unit) \<times> db" where
  "delete_job st u jid =
     (case authorize [Employer, Admin] u of
        Some e \<Rightarrow> (Inl e, st)
      | None \<Rightarrow>
          (case own_job st u jid of
             None \<Rightarrow> (Inl (not_found ''Job not found or access denied''), st)
           | Some j \<Rightarrow> (Inr (), destroy_job (job_id j) st)))"

definition toggle_status :: "db \<Rightarrow> user \<Rightarrow> int \<Rightarrow> (http_error + job) \<times> db" where
  "toggle_status st u jid =
     (case authorize [Employer, Admin] u of
        Some e \<Rightarrow> (Inl e, st)
      | None \<Rightarrow>
          (case own_job st u jid of
             None \<Rightarrow> (Inl (not_found ''Job not found or access denied''), st)
           | Some j \<Rightarrow>
               (Inr (j\<lparr>is_active := \<not> is_active j\<rparr>),
                st\<lparr>jobs := map (\<lambda>x. if job_id x = job_id j
                                      then x\<lparr>is_active := \<not> is_active j\<rparr> else x)
                             (jobs st)\<rparr>)))"

section \<open>Application routes (server/routes/applications.js)\<close>

subsection \<open>POST /api/applications\<close>

definition create_application_handler ::
  "db \<Rightarrow> user \<Rightarrow> int \<Rightarrow> application_body \<Rightarrow> (http_error + application) \<times> db" where
  "create_application_handler st u now b =
     (case (ab_job_id b, ab_resume_id b) of
        (Some jid, Some rid) \<Rightarrow>
          (case find (\<lambda>j. job_id j = jid \<and> is_active j) (jobs st) of
             None \<Rightarrow> (Inl (not_found ''Job not found or no longer active''), st)
           | Some j \<Rightarrow>
               (case find (\<lambda>r. resume_id r = rid \<and> resume_user_id r = user_id u)
                       (resumes st) of
                  None \<Rightarrow> (Inl (not_found ''Resume not found''), st)
                | Some r \<Rightarrow>
                    (case find (\<lambda>a. app_job_id a = jid \<and> applicant_id a = user_id u)
                            (applications st) of
                       Some existing \<Rightarrow>
                         (Inl (bad_request (Text ''You have already applied to this job'')),
                          st)
                     | None \<Rightarrow>
                         if (case application_deadline j of
                               None \<Rightarrow> False | Some d \<Rightarrow> now > d)
                         then (Inl (bad_request (Text ''Application deadline has passed'')),
                               st)
                         else
                           (let a = \<lparr>app_id = next_application_id st, app_job_id = jid,
                                     applicant_id = user_id u, app_resume_id = rid,
                                     cover_letter = ab_cover_letter b,
                                     app_status = ''pending'', app_notes = None\<rparr>
                            in (Inr a,
                                st\<lparr>applications := applications st @ [a],
                                   next_application_id := next_application_id st + 1\<rparr>)))))
      | _ \<Rightarrow> (Inl (server_error ''Failed to submit application''), st))"

definition create_application ::
  "db \<Rightarrow> user \<Rightarrow> int \<Rightarrow> application_body \<Rightarrow> (http_error + application) \<times> db" where
  "create_application st u now b =
     (case authorize [Applicant] u of
        Some e \<Rightarrow> (Inl e, st)
      | None \<Rightarrow>
          (case validateApplication b of
             Some e \<Rightarrow> (Inl e, st)
           | None \<Rightarrow> create_application_handler st u now b))"

subsection \<open>PUT /api/applications/:id and DELETE /api/applications/:id\<close>

definition own_application :: "db \<Rightarrow> user \<Rightarrow> int \<Rightarrow> application option" where
  "own_application st u aid =
     find (\<lambda>a. app_id a = aid \<and> applicant_id a = user_id u) (applications st)"

text \<open>
  \<^verbatim>\<open>application.update({ cover_letter })\<close> writes the one column, and nothing when
  the body carries no \<^verbatim>\<open>cover_letter\<close>.  This route has no validation middleware.
\<close>

definition update_application ::
  "db \<Rightarrow> user \<Rightarrow> int \<Rightarrow> string option \<Rightarrow> (http_error + application) \<times> db" where
  "update_application st u aid new_cover_letter =
     (case own_application st u aid of
        None \<Rightarrow> (Inl (not_found ''Application not found''), st)
      | Some a \<Rightarrow>
          if app_status a \<noteq> ''pending''
          then (Inl (bad_request
                  (Text ''Cannot update application after it has been reviewed'')), st)
          else
            (Inr (a\<lparr>cover_letter := or_keep new_cover_letter (cover_letter a)\<rparr>),
             st\<lparr>applications :=
                  map (\<lambda>x. if app_id x = app_id a
                            then x\<lparr>cover_letter := or_keep new_cover_letter (cover_letter x)\<rparr>
                            else x)
                    (applications st)\<rparr>))"

definition delete_application :: "db \<Rightarrow> user \<Rightarrow> int \<Rightarrow> (http_error + unit) \<times> db" where
  "delete_application st u aid =
     (case own_application st u aid of
        None \<Rightarrow> (Inl (not_found ''Application not found''), st)
      | Some a \<Rightarrow>
          if app_status a \<noteq> ''pending''
          then (Inl (bad_request
                  (Text ''Cannot withdraw application after it has been reviewed'')), st)
          else (Inr (),
                st\<lparr>applications := filter (\<lambda>x. app_id x \<noteq> app_id a) (applications st)\<rparr>))"

subsection \<open>PUT /api/applications/:id/status\<close>

record status_body =
  sb_status :: "string option"
  sb_notes :: "string option"

definition application_statuses :: "string list" where
  "application_statuses = [''pending'', ''reviewed'', ''shortlisted'', ''rejected'', ''hired'']"

text \<open>All applications of a list carry a status of the enumeration.\<close>

abbreviation statuses_valid :: "application list \<Rightarrow> bool" where
  "statuses_valid apps \<equiv> list_all (\<lambda>a. app_status a \<in> set application_statuses) apps"

text \<open>
  The application is looked up with its job joined under
  \<^verbatim>\<open>where: { employer_id: req.user.id }\<close>: it is found only when its job belongs to
  the caller.
\<close>

definition job_owned_by :: "db \<Rightarrow> int \<Rightarrow> application \<Rightarrow> bool" where
  "job_owned_by st uid a =
     list_ex (\<lambda>j. job_id j = app_job_id a \<and> employer_id j = uid) (jobs st)"

definition update_status_handler ::
  "db \<Rightarrow> user \<Rightarrow> int \<Rightarrow> status_body \<Rightarrow> (http_error + application) \<times> db" where
  "update_status_handler st u aid b =
     (case sb_status b of
        None \<Rightarrow> (Inl (bad_request (Text ''Invalid status'')), st)
      | Some s \<Rightarrow>
          if s \<notin> set application_statuses
          then (Inl (bad_request (Text ''Invalid status'')), st)
          else
            (case find (\<lambda>a. app_id a = aid \<and> job_owned_by st (user_id u) a)
                    (applications st) of
               None \<Rightarrow> (Inl (not_found ''Application not found or access denied''), st)
             | Some a \<Rightarrow>
                 (let new_notes = (if given (sb_notes b) then sb_notes b else app_notes a)
                  in (Inr (a\<lparr>app_status := s, app_notes := new_notes\<rparr>),
                      st\<lparr>applications :=
                           map (\<lambda>x. if app_id x = app_id a
                                     then x\<lparr>app_status := s, app_notes := new_notes\<rparr>
                                     else x)
                             (applications st)\<rparr>))))"

definition update_application_status ::
  "db \<Rightarrow> user \<Rightarrow> int \<Rightarrow> status_body \<Rightarrow> (http_error + application) \<times> db" where
  "update_application_status st u aid b =
     (case authorize [Employer, Admin] u of
        Some e \<Rightarrow> (Inl e, st)
      | None \<Rightarrow> update_status_handler st u aid b)"

subsection \<open>GET /api/applications/stats/overview\<close>

record stats =
  total :: nat
  pending :: nat
  reviewed :: nat
  shortlisted :: nat
  rejected :: nat
  hired :: nat

definition count_status :: "string \<Rightarrow> application list \<Rightarrow> nat" where
  "count_status s apps = length (filter (\<lambda>a. app_status a = s) apps)"

definition tally :: "application list \<Rightarrow> stats" where
  "tally apps =
     \<lparr>total = length apps,
      pending = count_status ''pending'' apps,
      reviewed = count_status ''reviewed'' apps,
      shortlisted = count_status ''shortlisted'' apps,
      rejected = count_status ''rejected'' apps,
      hired = count_status ''hired'' apps\<rparr>"

text \<open>
  For a caller who is neither applicant nor employer \<^verbatim>\<open>stats\<close> stays undefined and
  the answer carries no data (\<open>None\<close>).
\<close>

definition stats_overview :: "db \<Rightarrow> user \<Rightarrow> stats option" where
  "stats_overview st u =
     (case user_role u of
        Applicant \<Rightarrow>
          Some (tally (filter (\<lambda>a. applicant_id a = user_id u) (applications st)))
      | Employer \<Rightarrow> Some (tally (filter (job_owned_by st (user_id u)) (applications st)))
      | Admin \<Rightarrow> None)"

section \<open>Associations and eager loading (server/models/index.js)\<close>

text \<open>
  The associations that \<^verbatim>\<open>models/index.js\<close> registers, per source model and in the
  order of the file: the target model, the name under which the association is
  registered, and whether that name was given with \<^verbatim>\<open>as\<close>.  Without \<^verbatim>\<open>as\<close> the
  name is the one of the target model, in the plural for \<^verbatim>\<open>hasMany\<close>.
\<close>

definition associations :: "string \<Rightarrow> (string \<times> string \<times> bool) list" where
  "associations m =
     (if m = ''User'' then
        [(''Resume'', ''resumes'', True), (''Job'', ''jobs'', True),
         (''Application'', ''applications'', True)]
      else if m = ''Resume'' then
        [(''User'', ''user'', True), (''ResumeSkill'', ''resume_skills'', True),
         (''WorkExperience'', ''work_experience'', True), (''Education'', ''education'', True),
         (''Application'', ''Applications'', False), (''AIAnalysis'', ''ai_analyses'', True)]
      else if m = ''ResumeSkill'' then [(''Resume'', ''Resume'', False), (''Skill'', ''skill'', True)]
      else if m = ''Skill'' then [(''ResumeSkill'', ''ResumeSkills'', False)]
      else if m = ''WorkExperience'' then [(''Resume'', ''Resume'', False)]
      else if m = ''Education'' then [(''Resume'', ''Resume'', False)]
      else if m = ''Job'' then
        [(''User'', ''employer'', True), (''Application'', ''applications'', True),
         (''AIAnalysis'', ''AIAnalyses'', False)]
      else if m = ''Application'' then
        [(''Job'', ''job'', True), (''User'', ''applicant'', True), (''Resume'', ''resume'', True)]
      else if m = ''AIAnalysis'' then [(''Resume'', ''Resume'', False), (''Job'', ''Job'', False)]
      else [])"

text \<open>
  An entry of an \<^verbatim>\<open>include\<close> option is either a string, which names an association
  of the source model, or an object \<^verbatim>\<open>{ model, as, include }\<close>.  A query resolves
  every entry before it reads a row, and throws when one does not resolve: a string
  that is no registered name, or an object for whose model the source has no
  association that fits, where an object without \<^verbatim>\<open>as\<close> fits only an association
  registered without \<^verbatim>\<open>as\<close>, and one with \<^verbatim>\<open>as\<close> only the association of
  that name.
\<close>

datatype include_entry = Named string | Of string "string option" "include_entry list"

fun include_ok :: "string \<Rightarrow> include_entry \<Rightarrow> bool" where
  "include_ok m (Named a) = list_ex (\<lambda>(t, n, aliased). n = a) (associations m)"
| "include_ok m (Of t alias nested) =
     (list_ex (\<lambda>(t', n, aliased). t' = t
                 \<and> (case alias of None \<Rightarrow> \<not> aliased | Some a \<Rightarrow> n = a))
        (associations m)
      \<and> list_all (include_ok t) nested)"

datatype 'a query = Throws | Found 'a

section \<open>Resume routes (server/routes/resumes.js)\<close>

text \<open>
  The module binds \<^verbatim>\<open>auth\<close> to the whole of what \<^verbatim>\<open>middleware/auth.js\<close>
  exports, an object and no function, and passes it to every \<^verbatim>\<open>router\<close> method;
  the router refuses a handler that is no function, so none of the routes of this
  module is ever registered.  The handlers are modelled as they are written, for the
  user that the middleware \<^verbatim>\<open>auth\<close> of that file would resolve.
\<close>

record skill_body =
  sk_name :: string
  sk_proficiency_level :: "string option"
  sk_years_experience :: "int option"
  sk_category :: "string option"

record resume_body =
  rb_title :: "string option"
  rb_summary :: "string option"
  rb_experience_years :: "int option"
  rb_current_position :: "string option"
  rb_current_company :: "string option"
  rb_location :: "string option"
  rb_salary_expectation :: "rat option"
  rb_skills :: "skill_body list option"
  rb_work_experience :: "work_experience_body list option"
  rb_education :: "education_body list option"

subsection \<open>validateResume\<close>

definition check_resume_title :: "string option \<Rightarrow> message option" where
  "check_resume_title v =
     (case v of None \<Rightarrow> Some (Text ''Resume title is required'')
      | Some s \<Rightarrow>
          if s = [] then Some (JoiDefault ''title'' ''string.empty'')
          else if length s < 5
          then Some (Text ''Resume title must be at least 5 characters long'')
          else if length s > 200 then Some (Text ''Resume title cannot exceed 200 characters'')
          else None)"

definition check_experience_years :: "int option \<Rightarrow> message option" where
  "check_experience_years v =
     (case v of None \<Rightarrow> None
      | Some n \<Rightarrow>
          if rat_of_int n > max_safe_integer \<or> rat_of_int n < - max_safe_integer
          then Some (JoiDefault ''experience_years'' ''number.unsafe'')
          else if n < 0 then Some (Text ''Experience years cannot be negative'')
          else if n > 50 then Some (Text ''Experience years cannot exceed 50'')
          else None)"

definition proficiency_levels :: "string list" where
  "proficiency_levels = [''beginner'', ''intermediate'', ''advanced'', ''expert'']"

text \<open>The rules of one item of an array, reported under the key of the array.\<close>

definition check_skill :: "skill_body \<Rightarrow> message option" where
  "check_skill d =
     first_violation
       [if sk_name d = [] then Some (JoiDefault ''skills.name'' ''string.empty'') else None,
        check_valid ''skills.proficiency_level'' proficiency_levels (sk_proficiency_level d),
        (case sk_years_experience d of None \<Rightarrow> None
         | Some n \<Rightarrow>
             if rat_of_int n > max_safe_integer \<or> rat_of_int n < - max_safe_integer
             then Some (JoiDefault ''skills.years_experience'' ''number.unsafe'')
             else if n < 0 then Some (JoiDefault ''skills.years_experience'' ''number.min'')
             else None),
        check_optional_string ''skills.category'' (sk_category d)]"

definition check_work_experience :: "work_experience_body \<Rightarrow> message option" where
  "check_work_experience w =
     first_violation
       [if company_name w = []
        then Some (JoiDefault ''work_experience.company_name'' ''string.empty'') else None,
        if position w = []
        then Some (JoiDefault ''work_experience.position'' ''string.empty'') else None,
        check_optional_string ''work_experience.description'' (we_description w),
        check_optional_string ''work_experience.location'' (we_location w)]"

definition check_education :: "education_body \<Rightarrow> message option" where
  "check_education e =
     first_violation
       [if institution e = []
        then Some (JoiDefault ''education.institution'' ''string.empty'') else None,
        if degree e = [] then Some (JoiDefault ''education.degree'' ''string.empty'') else None,
        check_optional_string ''education.field_of_study'' (field_of_study e),
        check_optional_string ''education.grade'' (grade e),
        check_optional_string ''education.description'' (edu_description e)]"

definition check_items :: "('a \<Rightarrow> message option) \<Rightarrow> 'a list option \<Rightarrow> message option" where
  "check_items chk v = (case v of None \<Rightarrow> None | Some xs \<Rightarrow> first_violation (map chk xs))"

definition resume_schema :: "resume_body \<Rightarrow> message option" where
  "resume_schema b =
     first_violation
       [check_resume_title (rb_title b),
        check_max_string ''summary'' 1000 ''Summary cannot exceed 1000 characters''
          (rb_summary b),
        check_experience_years (rb_experience_years b),
        check_max_string ''current_position'' 200
          ''Current position cannot exceed 200 characters'' (rb_current_position b),
        check_max_string ''current_company'' 200
          ''Current company cannot exceed 200 characters'' (rb_current_company b),
        check_max_string ''location'' 200 ''Location cannot exceed 200 characters''
          (rb_location b),
        check_positive ''salary_expectation'' ''Salary expectation must be a positive number''
          (rb_salary_expectation b),
        check_items check_skill (rb_skills b),
        check_items check_work_experience (rb_work_experience b),
        check_items check_education (rb_education b)]"

definition validateResume :: "resume_body \<Rightarrow> http_error option" where
  "validateResume b = map_option bad_request (resume_schema b)"

subsection \<open>Skill links\<close>

text \<open>\<^verbatim>\<open>value || fallback\<close> on an optional string: the empty string is falsy.\<close>

definition str_or :: "string option \<Rightarrow> string \<Rightarrow> string" where
  "str_or v d = (case v of None \<Rightarrow> d | Some s \<Rightarrow> if s = [] then d else s)"

text \<open>
  \<^verbatim>\<open>Skill.findOrCreate({ where: { name }, defaults: { category } })\<close>: the row of the
  taxonomy with that name, created when there is none.
\<close>

definition find_or_create_skill :: "db \<Rightarrow> skill_body \<Rightarrow> skill \<times> db" where
  "find_or_create_skill st d =
     (case find (\<lambda>s. skill_name s = sk_name d) (skills st) of
        Some s \<Rightarrow> (s, st)
      | None \<Rightarrow>
          (let s = \<lparr>skill_id = next_skill_id st, skill_name = sk_name d,
                    skill_category =
                      str_or (sk_category d) ''General''\<rparr>
           in (s, st\<lparr>skills := skills st @ [s], next_skill_id := next_skill_id st + 1\<rparr>)))"

text \<open>
  \<^verbatim>\<open>ResumeSkill.create\<close>: the table has
  \<^verbatim>\<open>UNIQUE KEY unique_resume_skill (resume_id, skill_id)\<close>, so the insert of a second
  link between the same resume and skill is refused by the store and the call throws
  (\<open>None\<close>).
\<close>

definition create_resume_skill :: "db \<Rightarrow> int \<Rightarrow> int \<Rightarrow> skill_body \<Rightarrow> db option" where
  "create_resume_skill st rid sid d =
     (if list_ex (\<lambda>l. rs_resume_id l = rid \<and> rs_skill_id l = sid) (resume_skills st)
      then None
      else Some (st\<lparr>resume_skills := resume_skills st @
                      [\<lparr>rs_id = next_resume_skill_id st, rs_resume_id = rid,
                        rs_skill_id = sid,
                        proficiency_level =
                          str_or (sk_proficiency_level d) ''intermediate'',
                        rs_years_experience = or_else (sk_years_experience d) 0\<rparr>],
                    next_resume_skill_id := next_resume_skill_id st + 1\<rparr>))"

text \<open>
  The loop \<^verbatim>\<open>for (const skillData of skills)\<close>.  Its statements are not in a
  transaction: when one throws, what the earlier ones wrote stays (\<open>False\<close> with the
  store reached).
\<close>

fun add_skills :: "int \<Rightarrow> skill_body list \<Rightarrow> db \<Rightarrow> bool \<times> db" where
  "add_skills rid [] st = (True, st)"
| "add_skills rid (d # ds) st =
     (case find_or_create_skill st d of
        (s, st1) \<Rightarrow>
          (case create_resume_skill st1 rid (skill_id s) d of
             None \<Rightarrow> (False, st1)
           | Some st2 \<Rightarrow> add_skills rid ds st2))"

fun add_work_experience :: "int \<Rightarrow> work_experience_body list \<Rightarrow> db \<Rightarrow> db" where
  "add_work_experience rid [] st = st"
| "add_work_experience rid (w # ws) st =
     add_work_experience rid ws
       (st\<lparr>work_experiences := work_experiences st @
              [\<lparr>we_id = next_work_experience_id st, we_resume_id = rid, we_entry = w\<rparr>],
           next_work_experience_id := next_work_experience_id st + 1\<rparr>)"

fun add_education :: "int \<Rightarrow> education_body list \<Rightarrow> db \<Rightarrow> db" where
  "add_education rid [] st = st"
| "add_education rid (e # es) st =
     add_education rid es
       (st\<lparr>educations := educations st @
              [\<lparr>edu_id = next_education_id st, edu_resume_id = rid, edu_entry = e\<rparr>],
           next_education_id := next_education_id st + 1\<rparr>)"

text \<open>
  What a fetch of the resume shows of its skills (\<^verbatim>\<open>ResumeSkill\<close> with
  \<^verbatim>\<open>Skill\<close> included): per link, in the order of the table, the name of the skill it
  points to, the proficiency level and the years of experience.
\<close>

definition linked_skills :: "db \<Rightarrow> int \<Rightarrow> (string option \<times> string \<times> int) list" where
  "linked_skills st rid =
     map (\<lambda>l. (map_option skill_name (find (\<lambda>s. skill_id s = rs_skill_id l) (skills st)),
                proficiency_level l, rs_years_experience l))
       (filter (\<lambda>l. rs_resume_id l = rid) (resume_skills st))"

text \<open>The same three components of one supplied skill object, defaults filled in.\<close>

definition supplied_skill :: "skill_body \<Rightarrow> string option \<times> string \<times> int" where
  "supplied_skill d =
     (Some (sk_name d),
      str_or (sk_proficiency_level d) ''intermediate'',
      or_else (sk_years_experience d) 0)"

text \<open>
  What the primary keys and counters of the tables of skills and resumes guarantee:
  the keys of \<^verbatim>\<open>skills\<close> are distinct, every key handed out lies below the counter
  of its table, and every skill link belongs to a resume of the table.
\<close>

definition keys_ok :: "db \<Rightarrow> bool" where
  "keys_ok st =
     (distinct (map skill_id (skills st))
      \<and> list_all (\<lambda>s. skill_id s < next_skill_id st) (skills st)
      \<and> list_all (\<lambda>r. resume_id r < next_resume_id st) (resumes st)
      \<and> list_all (\<lambda>l. rs_resume_id l \<in> set (map resume_id (resumes st))) (resume_skills st))"

text \<open>
  The invariant of the loop for the resume \<open>rid\<close> and the skill objects still to come:
  the keys of the taxonomy are distinct and below the counter, and every link of the
  resume points to a skill of the taxonomy whose name is not among those to come.
\<close>

definition loop_inv :: "int \<Rightarrow> string list \<Rightarrow> db \<Rightarrow> bool" where
  "loop_inv rid names st =
     (distinct (map skill_id (skills st))
      \<and> list_all (\<lambda>s. skill_id s < next_skill_id st) (skills st)
      \<and> list_all (\<lambda>l. rs_resume_id l = rid \<longrightarrow>
            (\<exists>s \<in> set (skills st). skill_id s = rs_skill_id l \<and> skill_name s \<notin> set names))
          (resume_skills st))"

subsection \<open>POST /api/resumes, PUT /api/resumes/:id, DELETE /api/resumes/:id\<close>

text \<open>
  \<^verbatim>\<open>Resume.findOne\<close> and \<^verbatim>\<open>Resume.findByPk\<close> with an \<^verbatim>\<open>include\<close> option: the
  first row that meets the condition, if the entries of the option resolve.
\<close>

definition find_resume :: "include_entry list \<Rightarrow> db \<Rightarrow> (resume \<Rightarrow> bool) \<Rightarrow> resume option query" where
  "find_resume incs st P =
     (if list_all (include_ok ''Resume'') incs then Found (find P (resumes st)) else Throws)"

text \<open>
  The option with which create and update fetch the complete resume for their answer:
  \<^verbatim>\<open>[{ model: ResumeSkill, include: [{ model: Skill }] }, { model: WorkExperience },
  { model: Education }]\<close>.
\<close>

definition complete_resume :: "include_entry list" where
  "complete_resume =
     [Of ''ResumeSkill'' None [Of ''Skill'' None []], Of ''WorkExperience'' None [],
      Of ''Education'' None []]"

text \<open>
  \<open>file\<close> is the name under which an uploaded file was stored, if one was uploaded.
  \<^verbatim>\<open>parseInt(experience_years) || 0\<close> and \<^verbatim>\<open>parseFloat(salary_expectation) || null\<close>
  turn an absent value and zero into the fallback.
\<close>

definition new_resume :: "db \<Rightarrow> user \<Rightarrow> string \<Rightarrow> resume_body \<Rightarrow> string option \<Rightarrow> resume" where
  "new_resume st u t b file =
     \<lparr>resume_id = next_resume_id st, resume_user_id = user_id u, resume_title = t,
      resume_summary = rb_summary b,
      experience_years = or_else (rb_experience_years b) 0,
      current_position = rb_current_position b,
      current_company = rb_current_company b,
      resume_location = rb_location b,
      salary_expectation =
        (case rb_salary_expectation b of None \<Rightarrow> None
         | Some x \<Rightarrow> if x = 0 then None else Some x),
      resume_file_url = map_option (\<lambda>f. ''/uploads/resumes/'' @ f) file,
      is_public = False\<rparr>"

text \<open>
  The handler creates the resume, runs the three loops, fetches the complete resume and
  answers with it.  Whatever throws on the way is caught and answered with 500; what
  was written before stays.
\<close>

definition create_resume_handler ::
  "db \<Rightarrow> user \<Rightarrow> resume_body \<Rightarrow> string option \<Rightarrow> (http_error + resume option) \<times> db" where
  "create_resume_handler st u b file =
     (case rb_title b of
        None \<Rightarrow> (Inl (server_error ''Failed to create resume''), st)
      | Some t \<Rightarrow>
          (let r = new_resume st u t b file;
               st1 = st\<lparr>resumes := resumes st @ [r], next_resume_id := next_resume_id st + 1\<rparr>
           in case add_skills (resume_id r) (or_else (rb_skills b) []) st1 of
                (False, st2) \<Rightarrow> (Inl (server_error ''Failed to create resume''), st2)
              | (True, st2) \<Rightarrow>
                  (let st3 = add_education (resume_id r) (or_else (rb_education b) [])
                               (add_work_experience (resume_id r)
                                  (or_else (rb_work_experience b) []) st2)
                   in case find_resume complete_resume st3
                             (\<lambda>x. resume_id x = resume_id r) of
                        Throws \<Rightarrow> (Inl (server_error ''Failed to create resume''), st3)
                      | Found c \<Rightarrow> (Inr c, st3))))"

definition create_resume ::
  "db \<Rightarrow> user \<Rightarrow> resume_body \<Rightarrow> string option \<Rightarrow> (http_error + resume option) \<times> db" where
  "create_resume st u b file =
     (case validateResume b of
        Some e \<Rightarrow> (Inl e, st)
      | None \<Rightarrow> create_resume_handler st u b file)"

definition own_resume :: "db \<Rightarrow> user \<Rightarrow> int \<Rightarrow> resume option" where
  "own_resume st u rid =
     find (\<lambda>r. resume_id r = rid \<and> resume_user_id r = user_id u) (resumes st)"

text \<open>
  \<^verbatim>\<open>resume.update(updateData)\<close> writes the columns whose keys the body carries
  (\<^verbatim>\<open>skills\<close>, \<^verbatim>\<open>work_experience\<close> and \<^verbatim>\<open>education\<close> are no columns), and
  \<^verbatim>\<open>resume_file_url\<close> when a file was uploaded.
\<close>

definition apply_resume_body :: "resume_body \<Rightarrow> string option \<Rightarrow> resume \<Rightarrow> resume" where
  "apply_resume_body b file r =
     r\<lparr>resume_title := or_else (rb_title b) (resume_title r),
       resume_summary := or_keep (rb_summary b) (resume_summary r),
       experience_years := or_else (rb_experience_years b) (experience_years r),
       current_position := or_keep (rb_current_position b) (current_position r),
       current_company := or_keep (rb_current_company b) (current_company r),
       resume_location := or_keep (rb_location b) (resume_location r),
       salary_expectation := or_keep (rb_salary_expectation b) (salary_expectation r),
       resume_file_url :=
         or_keep (map_option (\<lambda>f. ''/uploads/resumes/'' @ f) file) (resume_file_url r)\<rparr>"

text \<open>
  The skills of an update: \<^verbatim>\<open>if (req.body.skills)\<close> holds for every array, the
  empty one included; then all links of the resume are destroyed and the loop runs.
\<close>

definition replace_skills :: "int \<Rightarrow> skill_body list \<Rightarrow> db \<Rightarrow> bool \<times> db" where
  "replace_skills rid ds st =
     add_skills rid ds
       (st\<lparr>resume_skills := filter (\<lambda>l. rs_resume_id l \<noteq> rid) (resume_skills st)\<rparr>)"

definition update_resume_handler ::
  "db \<Rightarrow> user \<Rightarrow> int \<Rightarrow> resume_body \<Rightarrow> string option
     \<Rightarrow> (http_error + resume option) \<times> db" where
  "update_resume_handler st u rid b file =
     (case own_resume st u rid of
        None \<Rightarrow> (Inl (not_found ''Resume not found''), st)
      | Some r \<Rightarrow>
          (let st1 = st\<lparr>resumes := map (\<lambda>x. if resume_id x = resume_id r
                                               then apply_resume_body b file x else x)
                                      (resumes st)\<rparr>
           in case (case rb_skills b of
                      None \<Rightarrow> (True, st1)
                    | Some ds \<Rightarrow> replace_skills (resume_id r) ds st1) of
                (False, st2) \<Rightarrow> (Inl (server_error ''Failed to update resume''), st2)
              | (True, st2) \<Rightarrow>
                  (case find_resume complete_resume st2 (\<lambda>x. resume_id x = resume_id r) of
                     Throws \<Rightarrow> (Inl (server_error ''Failed to update resume''), st2)
                   | Found c \<Rightarrow> (Inr c, st2))))"

definition update_resume ::
  "db \<Rightarrow> user \<Rightarrow> int \<Rightarrow> resume_body \<Rightarrow> string option
     \<Rightarrow> (http_error + resume option) \<times> db" where
  "update_resume st u rid b file =
     (case validateResume b of
        Some e \<Rightarrow> (Inl e, st)
      | None \<Rightarrow> update_resume_handler st u rid b file)"

definition delete_resume :: "db \<Rightarrow> user \<Rightarrow> int \<Rightarrow> (http_error + unit) \<times> db" where
  "delete_resume st u rid =
     (case own_resume st u rid of
        None \<Rightarrow> (Inl (not_found ''Resume not found''), st)
      | Some r \<Rightarrow> (Inr (), destroy_resume (resume_id r) st))"

section \<open>AI routes (server/routes/ai.js)\<close>

text \<open>
  This module, too, binds \<^verbatim>\<open>auth\<close> to the whole of what \<^verbatim>\<open>middleware/auth.js\<close>
  exports, so its routes are never registered either; the handlers are modelled as they
  are written.

  One request to the completion service either throws (\<open>CallFailed\<close>), or returns a
  text on which \<^verbatim>\<open>JSON.parse\<close> throws (\<open>NotJson\<close>), or returns a text that parses
  (\<open>Parsed\<close>, the value at the shape that the prompt of the route asks for).  The
  service is the list of the outcomes it would give to the requests made to it, in their
  order; a route returns the outcomes it has not used.
\<close>

datatype 'r completion = CallFailed | NotJson | Parsed 'r

definition create_completion :: "'r completion list \<Rightarrow> 'r completion \<times> 'r completion list" where
  "create_completion svc = (case svc of [] \<Rightarrow> (CallFailed, []) | c # cs \<Rightarrow> (c, cs))"

record analysis_reply =
  reply_score :: "rat option"
  reply_text :: string

record match_reply =
  job_index :: int
  match_score :: "rat option"
  matching_skills :: "string list"
  missing_skills :: "string list"
  reasoning :: string

definition insert_ai_analysis ::
  "db \<Rightarrow> int option \<Rightarrow> int option \<Rightarrow> string \<Rightarrow> rat option \<Rightarrow> insights \<Rightarrow> db" where
  "insert_ai_analysis st rid jid kind sc ins =
     st\<lparr>ai_analyses := ai_analyses st @
           [\<lparr>ai_id = next_ai_analysis_id st, ai_resume_id = rid, ai_job_id = jid,
             analysis_type = kind, ai_score = sc, ai_insights = ins\<rparr>],
        next_ai_analysis_id := next_ai_analysis_id st + 1\<rparr>"

text \<open>
  Every handler starts with \<^verbatim>\<open>Resume.findOne\<close> under the caller's
  \<^verbatim>\<open>user_id\<close>, with the \<^verbatim>\<open>include\<close> option of strings that it gives.
\<close>

definition analyze_resume ::
  "db \<Rightarrow> user \<Rightarrow> int \<Rightarrow> analysis_reply completion list
     \<Rightarrow> (http_error + int \<times> analysis_reply) \<times> db \<times> analysis_reply completion list" where
  "analyze_resume st u rid svc =
     (case find_resume [Named ''skills'', Named ''work_experience'', Named ''education''] st
             (\<lambda>r. resume_id r = rid \<and> resume_user_id r = user_id u) of
        Throws \<Rightarrow> (Inl (server_error ''Failed to analyze resume''), st, svc)
      | Found None \<Rightarrow> (Inl (not_found ''Resume not found''), st, svc)
      | Found (Some r) \<Rightarrow>
          (case create_completion svc of
             (Parsed a, rest) \<Rightarrow>
               (Inr (next_ai_analysis_id st, a),
                insert_ai_analysis st (Some (resume_id r)) None ''resume_score''
                  (reply_score a) (ResumeScoreInsights (reply_text a)),
                rest)
           | (failed, rest) \<Rightarrow> (Inl (server_error ''Failed to analyze resume''), st, rest)))"

text \<open>
  \<^verbatim>\<open>jobs[match.job_index - 1]\<close> is undefined outside the array, and reading
  \<^verbatim>\<open>job.id\<close> then throws; the whole \<^verbatim>\<open>matches.map\<close> runs before the first row is
  saved.  The table is held in the order of insertion, so the newest jobs come last.
\<close>

definition nth_job :: "job list \<Rightarrow> int \<Rightarrow> job option" where
  "nth_job js i = (if 0 \<le> i \<and> i < int (length js) then Some (js ! nat i) else None)"

fun map_matches :: "job list \<Rightarrow> match_reply list \<Rightarrow> (job \<times> match_reply) list option" where
  "map_matches js [] = Some []"
| "map_matches js (m # ms) =
     (case nth_job js (job_index m - 1) of
        None \<Rightarrow> None
      | Some j \<Rightarrow> map_option (\<lambda>rest. (j, m) # rest) (map_matches js ms))"

fun save_matches :: "int \<Rightarrow> (job \<times> match_reply) list \<Rightarrow> db \<Rightarrow> db" where
  "save_matches rid [] st = st"
| "save_matches rid ((j, m) # ms) st =
     save_matches rid ms
       (insert_ai_analysis st (Some rid) (Some (job_id j)) ''job_match'' (match_score m)
          (JobMatchInsights (matching_skills m) (missing_skills m) (reasoning m)))"

definition match_jobs ::
  "db \<Rightarrow> user \<Rightarrow> int \<Rightarrow> match_reply list completion list
     \<Rightarrow> (http_error + (job \<times> match_reply) list \<times> nat) \<times> db
         \<times> match_reply list completion list" where
  "match_jobs st u rid svc =
     (case find_resume [Named ''skills'', Named ''work_experience''] st
             (\<lambda>r. resume_id r = rid \<and> resume_user_id r = user_id u) of
        Throws \<Rightarrow> (Inl (server_error ''Failed to match jobs''), st, svc)
      | Found None \<Rightarrow> (Inl (not_found ''Resume not found''), st, svc)
      | Found (Some r) \<Rightarrow>
          (let js = take 50 (rev (filter is_active (jobs st))) in
           case create_completion svc of
             (Parsed ms, rest) \<Rightarrow>
               (case map_matches js ms of
                  None \<Rightarrow> (Inl (server_error ''Failed to match jobs''), st, rest)
                | Some job_matches \<Rightarrow>
                    (Inr (job_matches, length js),
                     save_matches (resume_id r) (take 5 job_matches) st, rest))
           | (failed, rest) \<Rightarrow> (Inl (server_error ''Failed to match jobs''), st, rest)))"

definition skill_gap_analysis ::
  "db \<Rightarrow> user \<Rightarrow> int \<Rightarrow> string option \<Rightarrow> string option \<Rightarrow> analysis_reply completion list
     \<Rightarrow> (http_error + int \<times> analysis_reply) \<times> db \<times> analysis_reply completion list" where
  "skill_gap_analysis st u rid target_role target_industry svc =
     (case find_resume [Named ''skills'', Named ''work_experience''] st
             (\<lambda>r. resume_id r = rid \<and> resume_user_id r = user_id u) of
        Throws \<Rightarrow> (Inl (server_error ''Failed to analyze skill gaps''), st, svc)
      | Found None \<Rightarrow> (Inl (not_found ''Resume not found''), st, svc)
      | Found (Some r) \<Rightarrow>
          (case create_completion svc of
             (Parsed a, rest) \<Rightarrow>
               (Inr (next_ai_analysis_id st, a),
                insert_ai_analysis st (Some (resume_id r)) None ''skill_gap''
                  (reply_score a) (SkillGapInsights target_role target_industry (reply_text a)),
                rest)
           | (failed, rest) \<Rightarrow>
               (Inl (server_error ''Failed to analyze skill gaps''), st, rest)))"


section \<open>Histories of the store\<close>

text \<open>
  The stores that the routes can produce: starting from any store that holds no
  application yet, each step is one request to one of the routes above that write, by
  any caller and with any body.  The account routes are not among the sources; what
  they do to the store is the insertion of a row of \<^verbatim>\<open>users\<close> and the deletion of
  one, with its cascade.
\<close>

inductive reachable :: "db \<Rightarrow> bool" where
  start: "applications st = [] \<Longrightarrow> reachable st"
| user_inserted: "reachable st \<Longrightarrow> reachable (st\<lparr>users := users st @ [u]\<rparr>)"
| user_deleted: "reachable st \<Longrightarrow> reachable (destroy_user uid st)"
| job_created: "reachable st \<Longrightarrow> reachable (snd (create_job to_number st u now jb))"
| job_updated: "reachable st \<Longrightarrow> reachable (snd (update_job to_number st u now jid jb))"
| job_deleted: "reachable st \<Longrightarrow> reachable (snd (delete_job st u jid))"
| job_toggled: "reachable st \<Longrightarrow> reachable (snd (toggle_status st u jid))"
| application_created: "reachable st \<Longrightarrow> reachable (snd (create_application st u now ab))"
| application_updated: "reachable st \<Longrightarrow> reachable (snd (update_application st u aid c))"
| application_deleted: "reachable st \<Longrightarrow> reachable (snd (delete_application st u aid))"
| status_updated: "reachable st \<Longrightarrow> reachable (snd (update_application_status st u aid sb))"
| resume_created: "reachable st \<Longrightarrow> reachable (snd (create_resume st u rb file))"
| resume_updated: "reachable st \<Longrightarrow> reachable (snd (update_resume st u rid rb file))"
| resume_deleted: "reachable st \<Longrightarrow> reachable (snd (delete_resume st u rid))"
| resume_analyzed: "reachable st \<Longrightarrow> reachable (fst (snd (analyze_resume st u rid svc)))"
| jobs_matched: "reachable st \<Longrightarrow> reachable (fst (snd (match_jobs st u rid msvc)))"
| gap_analyzed:
    "reachable st \<Longrightarrow> reachable (fst (snd (skill_gap_analysis st u rid tr ti svc)))"

section \<open>Sample data\<close>

text \<open>
  The store right after \<^verbatim>\<open>database/schema.sql\<close> has run: the fifteen sample skills,
  no other rows.
\<close>

definition sample_skills :: "(string \<times> string) list" where
  "sample_skills =
     [(''JavaScript'', ''Programming''), (''React'', ''Frontend''), (''Node.js'', ''Backend''),
      (''MySQL'', ''Database''), (''Python'', ''Programming''), (''Java'', ''Programming''),
      (''HTML/CSS'', ''Frontend''), (''AWS'', ''Cloud''), (''Docker'', ''DevOps''),
      (''Git'', ''Version Control''), (''Project Management'', ''Soft Skills''),
      (''Communication'', ''Soft Skills''), (''Leadership'', ''Soft Skills''),
      (''Problem Solving'', ''Soft Skills''), (''Machine Learning'', ''AI/ML'')]"

definition initial_db :: db where
  "initial_db =
     \<lparr>users = [], resumes = [],
      skills = map (\<lambda>(i, (n, c)). \<lparr>skill_id = i, skill_name = n, skill_category = c\<rparr>)
                 (zip [1..15] sample_skills),
      resume_skills = [], work_experiences = [], educations = [], jobs = [],
      applications = [], ai_analyses = [],
      next_resume_id = 1, next_skill_id = 16, next_resume_skill_id = 1,
      next_work_experience_id = 1, next_education_id = 1, next_job_id = 1,
      next_application_id = 1, next_ai_analysis_id = 1\<rparr>"

text \<open>
  An employer (user 1) with one active job (job 1, no deadline), a second employer
  (user 4), and two applicants (users 2 and 3) with one resume each (resumes 1 and 2).
\<close>

definition employer1 :: user where "employer1 = \<lparr>user_id = 1, user_role = Employer\<rparr>"
definition applicant2 :: user where "applicant2 = \<lparr>user_id = 2, user_role = Applicant\<rparr>"
definition applicant3 :: user where "applicant3 = \<lparr>user_id = 3, user_role = Applicant\<rparr>"
definition employer4 :: user where "employer4 = \<lparr>user_id = 4, user_role = Employer\<rparr>"

definition sample_job :: job where
  "sample_job =
     \<lparr>job_id = 1, employer_id = 1, job_title = ''Backend engineer'',
      job_description =
        ''We are looking for an engineer to build and run our public services.'',
      requirements = None, job_location = Some ''Remote'', salary_min = Some 40000,
      salary_max = Some 50000, employment_type = ''contract'', experience_level = ''mid'',
      is_active = True, application_deadline = None\<rparr>"

definition sample_resume :: "int \<Rightarrow> int \<Rightarrow> resume" where
  "sample_resume rid uid =
     \<lparr>resume_id = rid, resume_user_id = uid, resume_title = ''Software engineer'',
      resume_summary = None, experience_years = 3, current_position = None,
      current_company = None, resume_location = None, salary_expectation = None,
      resume_file_url = None, is_public = False\<rparr>"

definition sample_db :: db where
  "sample_db =
     initial_db\<lparr>users := [employer1, applicant2, applicant3, employer4],
                jobs := [sample_job], next_job_id := 2,
                resumes := [sample_resume 1 2, sample_resume 2 3], next_resume_id := 3\<rparr>"

definition sample_application :: "string \<Rightarrow> application" where
  "sample_application s =
     \<lparr>app_id = 1, app_job_id = 1, applicant_id = 2, app_resume_id = 1,
      cover_letter = Some ''Dear team'', app_status = s, app_notes = None\<rparr>"

definition applied_db :: "string \<Rightarrow> db" where
  "applied_db s = sample_db\<lparr>applications := [sample_application s], next_application_id := 2\<rparr>"

text \<open>A resume body with a title and a list of skills, and one skill object.\<close>

definition sample_resume_body :: "skill_body list \<Rightarrow> resume_body" where
  "sample_resume_body ds =
     \<lparr>rb_title = Some ''Platform engineer'', rb_summary = None, rb_experience_years = Some 5,
      rb_current_position = None, rb_current_company = None, rb_location = None,
      rb_salary_expectation = None, rb_skills = Some ds, rb_work_experience = None,
      rb_education = None\<rparr>"

definition sample_skill :: "string \<Rightarrow> string option \<Rightarrow> int option \<Rightarrow> skill_body" where
  "sample_skill n p y =
     \<lparr>sk_name = n, sk_proficiency_level = p, sk_years_experience = y, sk_category = None\<rparr>"

text \<open>
  A job body with the texts of job 1 and the two salaries as given, and the conversion
  on the strings that the examples use: a string of decimal digits writes the number
  that its digits spell.  (The library converts further strings; here they are left
  without a number.)
\<close>

definition sample_job_body :: "js_value \<Rightarrow> js_value \<Rightarrow> job_body" where
  "sample_job_body lo hi =
     \<lparr>jb_title = Some ''Backend engineer'',
      jb_description =
        Some ''We are looking for an engineer to build and run our public services.'',
      jb_requirements = None, jb_location = Some ''Remote'',
      jb_salary_min = Some lo, jb_salary_max = Some hi,
      jb_employment_type = Some ''contract'', jb_experience_level = None,
      jb_application_deadline = None\<rparr>"

definition digit_value :: "char \<Rightarrow> nat option" where
  "digit_value c =
     (let n = (of_char c :: nat) in if 48 \<le> n \<and> n \<le> 57 then Some (n - 48) else None)"

fun decimal_digits :: "rat \<Rightarrow> string \<Rightarrow> rat option" where
  "decimal_digits acc [] = Some acc"
| "decimal_digits acc (c # cs) =
     (case digit_value c of
        None \<Rightarrow> None
      | Some d \<Rightarrow> decimal_digits (10 * acc + of_nat d) cs)"

definition plain_decimal :: "string \<Rightarrow> rat option" where
  "plain_decimal s = (if s = [] then None else decimal_digits 0 s)"

section \<open>Unfolding the sample data and the schemas\<close>

lemmas sample_data = sample_db_def initial_db_def sample_job_def sample_resume_def
  employer1_def applicant2_def applicant3_def employer4_def applied_db_def
  sample_application_def

lemmas application_checks = validateApplication_def application_schema_def check_id_def
  check_max_string_def max_safe_integer_def

lemmas job_checks = job_schema_def check_job_title_def check_job_description_def
  check_optional_string_def check_max_string_def check_positive_value_def joi_number_def
  check_positive_def check_valid_def check_deadline_def max_safe_integer_def
  employment_types_def experience_levels_def

lemma first_violation_None: "first_violation cs = None \<longleftrightarrow> (\<forall>c \<in> set cs. c = None)"
  by (induction cs rule: first_violation.induct) auto

section \<open>Properties of the validation middleware\<close>

text \<open>
  C9.  \<^verbatim>\<open>validateRegistration\<close> calls \<^verbatim>\<open>next()\<close> only for a body whose
  \<^verbatim>\<open>role\<close> is absent, \<^verbatim>\<open>'applicant'\<close> or \<^verbatim>\<open>'employer'\<close>; a body with any
  other role, \<^verbatim>\<open>'admin'\<close> included, is answered by the middleware itself with
  status 400, so the handler behind it never sees it.
\<close>

theorem validateRegistration_role_gate:
  "(validateRegistration email_ok b = None \<longrightarrow>
      reg_role b = None \<or> reg_role b = Some ''applicant'' \<or> reg_role b = Some ''employer'')
   \<and> (\<forall>r. reg_role b = Some r \<longrightarrow> r \<noteq> ''applicant'' \<longrightarrow> r \<noteq> ''employer'' \<longrightarrow>
         (\<exists>m. validateRegistration email_ok b = Some \<lparr>status = 400, error = m\<rparr>))"
proof (intro conjI allI impI)
  assume "validateRegistration email_ok b = None"
  then have "check_role (reg_role b) = None"
    by (simp add: validateRegistration_def registration_schema_def first_violation_None)
  then show "reg_role b = None \<or> reg_role b = Some ''applicant'' \<or> reg_role b = Some ''employer''"
    by (auto simp: check_role_def split: option.splits if_splits)
next
  fix r
  assume r: "reg_role b = Some r" "r \<noteq> ''applicant''" "r \<noteq> ''employer''"
  then have "check_role (reg_role b) \<noteq> None"
    by (simp add: check_role_def)
  then have "registration_schema email_ok b \<noteq> None"
    by (auto simp: registration_schema_def first_violation_None)
  then show "\<exists>m. validateRegistration email_ok b = Some \<lparr>status = 400, error = m\<rparr>"
    by (auto simp: validateRegistration_def bad_request_def)
qed

text \<open>
  A registration as \<^verbatim>\<open>'admin'\<close> with otherwise valid fields is refused for its role;
  one as \<^verbatim>\<open>'employer'\<close> passes.
\<close>

theorem validateRegistration_role_gate_witness:
  "reg_role \<lparr>reg_email = Some ''root@example.com'', reg_password = Some ''secret1'',
             reg_first_name = Some ''Ada'', reg_last_name = Some ''Root'',
             reg_phone = None, reg_role = Some ''admin''\<rparr> = Some ''admin''
   \<and> validateRegistration (\<lambda>s. CHR ''@'' \<in> set s)
       \<lparr>reg_email = Some ''root@example.com'', reg_password = Some ''secret1'',
        reg_first_name = Some ''Ada'', reg_last_name = Some ''Root'',
        reg_phone = None, reg_role = Some ''admin''\<rparr>
     = Some \<lparr>status = 400, error = JoiDefault ''role'' ''any.only''\<rparr>
   \<and> validateRegistration (\<lambda>s. CHR ''@'' \<in> set s)
       \<lparr>reg_email = Some ''ann@example.com'', reg_password = Some ''secret1'',
        reg_first_name = Some ''Ann'', reg_last_name = Some ''Lee'',
        reg_phone = Some ''+1 (555) 010-9999'', reg_role = Some ''employer''\<rparr> = None"
  using validateRegistration_role_gate
    [of "\<lambda>s. CHR ''@'' \<in> set s"
        "\<lparr>reg_email = Some ''root@example.com'', reg_password = Some ''secret1'',
          reg_first_name = Some ''Ada'', reg_last_name = Some ''Root'',
          reg_phone = None, reg_role = Some ''admin''\<rparr>"]
  by (simp add: validateRegistration_def registration_schema_def check_email_def
      check_password_def check_first_name_def check_last_name_def check_phone_def
      check_role_def bad_request_def phone_pattern_def phone_tail_def phone_char_def)

lemma check_positive_None: "check_positive key msg (Some x) = None \<Longrightarrow> x > 0"
  by (auto simp: check_positive_def split: if_splits)

lemma job_schema_salaries:
  assumes "job_schema to_number now b = None"
  shows "check_positive_value to_number ''salary_min''
           ''Minimum salary must be a positive number'' (jb_salary_min b) = None"
    and "check_positive_value to_number ''salary_max''
           ''Maximum salary must be a positive number'' (jb_salary_max b) = None"
  using assms by (simp_all add: job_schema_def first_violation_None)

text \<open>
  When both salaries arrive as numbers, the middleware does what it is written for: a
  minimum above the maximum is answered with 400, and neither route touches the store.
\<close>

lemma validateJob_inverted_numbers:
  assumes "jb_salary_min b = Some (JNum lo)" "jb_salary_max b = Some (JNum hi)" "lo > hi"
  shows "\<exists>e. validateJob to_number now b = Some e \<and> status e = 400
             \<and> (job_schema to_number now b = None \<longrightarrow> e = salary_range_error)"
proof (cases "job_schema to_number now b")
  case None
  from job_schema_salaries[OF None] assms have "lo > 0" "hi > 0"
    by (auto simp: check_positive_value_def joi_number_def dest: check_positive_None)
  with assms have "salary_range_violated to_number b"
    by (simp add: salary_range_violated_def truthy_def js_greater_def joi_number_def)
  with None show ?thesis
    by (simp add: validateJob_def salary_range_error_def bad_request_def)
next
  case (Some m)
  then show ?thesis
    by (simp add: validateJob_def bad_request_def)
qed

lemma create_job_inverted_numbers:
  assumes "jb_salary_min b = Some (JNum lo)" "jb_salary_max b = Some (JNum hi)" "lo > hi"
  shows "\<exists>e. status e \<in> {400, 403}
            \<and> create_job to_number st u now b = (Inl e, st)
            \<and> update_job to_number st u now jid b = (Inl e, st)"
proof -
  from validateJob_inverted_numbers[OF assms, of to_number now] obtain e where
    e: "validateJob to_number now b = Some e" "status e = 400"
    by auto
  show ?thesis
  proof (cases "user_role u = Applicant")
    case True
    then show ?thesis
      by (intro exI[of _ forbidden])
         (simp add: create_job_def update_job_def authorize_def forbidden_def)
  next
    case False
    with e show ?thesis
      by (intro exI[of _ e]) (cases "user_role u"; simp add: create_job_def update_job_def authorize_def)
  qed
qed

text \<open>
  C5.  The request whose body gives the two salaries as the strings \<^verbatim>\<open>"50000"\<close>
  and \<^verbatim>\<open>"9000"\<close>, sent by employer 1 with otherwise valid fields.  The schema
  accepts both strings as positive numbers; the salary test then compares the strings
  as they arrived, character by character, and \<^verbatim>\<open>"50000" > "9000"\<close> is false.  So
  \<^verbatim>\<open>validateJob\<close> calls \<^verbatim>\<open>next()\<close>, and \<^verbatim>\<open>POST /api/jobs\<close> stores job 2 with a
  minimum salary of 50000 above its maximum of 9000.  The same salaries sent as numbers
  are answered with 400 and the salary-range message.
\<close>

theorem validateJob_string_salaries:
  "validateJob plain_decimal 1000 (sample_job_body (JNum 50000) (JNum 9000))
     = Some \<lparr>status = 400,
             error = Text ''Minimum salary cannot be greater than maximum salary''\<rparr>
   \<and> validateJob plain_decimal 1000 (sample_job_body (JStr ''50000'') (JStr ''9000'')) = None
   \<and> create_job plain_decimal sample_db employer1 1000
       (sample_job_body (JStr ''50000'') (JStr ''9000''))
     = (Inr (sample_job\<lparr>job_id := 2, salary_min := Some 50000, salary_max := Some 9000\<rparr>),
        sample_db\<lparr>jobs := [sample_job,
                             sample_job\<lparr>job_id := 2, salary_min := Some 50000,
                                          salary_max := Some 9000\<rparr>],
                   next_job_id := 3\<rparr>)"
proof (intro conjI)
  show "validateJob plain_decimal 1000 (sample_job_body (JNum 50000) (JNum 9000))
     = Some \<lparr>status = 400,
             error = Text ''Minimum salary cannot be greater than maximum salary''\<rparr>"
    by code_simp
  show v: "validateJob plain_decimal 1000 (sample_job_body (JStr ''50000'') (JStr ''9000''))
      = None"
    by code_simp
  have s: "stored_number plain_decimal (Some (JStr ''50000'')) = Some 50000"
          "stored_number plain_decimal (Some (JStr ''9000'')) = Some 9000"
    by code_simp+
  show "create_job plain_decimal sample_db employer1 1000
       (sample_job_body (JStr ''50000'') (JStr ''9000''))
     = (Inr (sample_job\<lparr>job_id := 2, salary_min := Some 50000, salary_max := Some 9000\<rparr>),
        sample_db\<lparr>jobs := [sample_job,
                             sample_job\<lparr>job_id := 2, salary_min := Some 50000,
                                          salary_max := Some 9000\<rparr>],
                   next_job_id := 3\<rparr>)"
    using v s
    by (simp add: create_job_def authorize_def create_job_handler_def Let_def sample_data
        sample_job_body_def)
qed

section \<open>Properties of the application routes\<close>







lemma find_None_list_all: "find P xs = None \<longleftrightarrow> list_all (\<lambda>x. \<not> P x) xs"
  by (induction xs) auto

text \<open>
  C4.  For a caller who does not own the job of the application with the given
  identifier, \<^verbatim>\<open>PUT /api/applications/:id/status\<close> never succeeds and never changes
  the store, whatever the body.  The answer is 403 when the caller's role is
  \<^verbatim>\<open>'applicant'\<close>; for an employer or admin it is 400 \<^verbatim>\<open>'Invalid status'\<close> when
  the requested status is absent or outside the enumeration, and 404
  \<^verbatim>\<open>'Application not found or access denied'\<close> otherwise.
\<close>

theorem status_update_by_non_owner:
  assumes "list_all (\<lambda>a. app_id a = aid \<longrightarrow> \<not> job_owned_by st (user_id u) a) (applications st)"
  shows "update_application_status st u aid b =
           (Inl (if user_role u = Applicant then forbidden
                 else if (case sb_status b of None \<Rightarrow> True
                          | Some s \<Rightarrow> s \<notin> set application_statuses)
                 then bad_request (Text ''Invalid status'')
                 else not_found ''Application not found or access denied''), st)"
proof -
  have "find (\<lambda>a. app_id a = aid \<and> job_owned_by st (user_id u) a) (applications st) = None"
    using assms by (simp add: find_None_list_all list_all_iff)
  then show ?thesis
    by (cases "user_role u")
       (auto simp: update_application_status_def authorize_def update_status_handler_def
          split: option.splits)
qed

text \<open>
  Application 1 belongs to job 1 of employer 1.  Applicant 3 is refused with 403, and
  employer 4 with 404 when asking for \<^verbatim>\<open>'hired'\<close>.
\<close>

theorem status_update_by_non_owner_witness:
  "list_all (\<lambda>a. app_id a = 1 \<longrightarrow> \<not> job_owned_by (applied_db ''pending'') (user_id employer4) a)
     (applications (applied_db ''pending''))
   \<and> update_application_status (applied_db ''pending'') employer4 1
        \<lparr>sb_status = Some ''hired'', sb_notes = None\<rparr>
      = (Inl \<lparr>status = 404, error = Text ''Application not found or access denied''\<rparr>,
         applied_db ''pending'')
   \<and> update_application_status (applied_db ''pending'') applicant3 1
        \<lparr>sb_status = Some ''hired'', sb_notes = None\<rparr>
      = (Inl \<lparr>status = 403, error = Text ''Access denied. Insufficient permissions.''\<rparr>,
         applied_db ''pending'')"
  using status_update_by_non_owner
    [of 1 "applied_db ''pending''" employer4 "\<lparr>sb_status = Some ''hired'', sb_notes = None\<rparr>"]
    status_update_by_non_owner
    [of 1 "applied_db ''pending''" applicant3 "\<lparr>sb_status = Some ''hired'', sb_notes = None\<rparr>"]
  by (simp add: sample_data job_owned_by_def application_statuses_def not_found_def
      forbidden_def)

text \<open>
  Employer 4, who does not own job 1, asks for the status \<^verbatim>\<open>'archived'\<close> on
  application 1: the answer is the validation error 400 \<^verbatim>\<open>'Invalid status'\<close>, since
  the status is checked before the application is looked up.
\<close>

theorem status_update_by_non_owner_counterexample:
  "\<not> job_owned_by (applied_db ''pending'') (user_id employer4) (sample_application ''pending'')
   \<and> update_application_status (applied_db ''pending'') employer4 1
        \<lparr>sb_status = Some ''archived'', sb_notes = None\<rparr>
      = (Inl \<lparr>status = 400, error = Text ''Invalid status''\<rparr>, applied_db ''pending'')"
  by (simp add: sample_data job_owned_by_def update_application_status_def authorize_def
      update_status_handler_def application_statuses_def bad_request_def)

lemma own_application_id:
  "own_application st u aid = Some a \<Longrightarrow> app_id a = aid \<and> applicant_id a = user_id u"
  by (auto simp: own_application_def find_Some_iff)

text \<open>
  C6.  For an application of the caller whose status is not \<^verbatim>\<open>'pending'\<close>, both
  \<^verbatim>\<open>PUT /api/applications/:id\<close> and \<^verbatim>\<open>DELETE /api/applications/:id\<close> answer 400
  and leave the store as it is.  While the status is \<^verbatim>\<open>'pending'\<close>, be it still
  or again, the update succeeds and changes nothing but cover letters: with the cover
  letters blanked, the table of applications is the same before and after, and so is
  every other table; and the withdrawal succeeds: it removes the application with that
  id from the table and changes nothing else.  A caller with role \<^verbatim>\<open>'applicant'\<close>
  is turned away from the status route with 403.
\<close>

theorem applicant_changes_only_pending:
  assumes "own_application st u aid = Some a"
  shows "(app_status a \<noteq> ''pending'' \<longrightarrow>
            update_application st u aid c
              = (Inl (bad_request
                   (Text ''Cannot update application after it has been reviewed'')), st)
          \<and> delete_application st u aid
              = (Inl (bad_request
                   (Text ''Cannot withdraw application after it has been reviewed'')), st))
       \<and> (app_status a = ''pending'' \<longrightarrow>
            (\<exists>a' st'. update_application st u aid c = (Inr a', st')
               \<and> a'\<lparr>cover_letter := None\<rparr> = a\<lparr>cover_letter := None\<rparr>
               \<and> map (\<lambda>x. x\<lparr>cover_letter := None\<rparr>) (applications st')
                   = map (\<lambda>x. x\<lparr>cover_letter := None\<rparr>) (applications st)
               \<and> st'\<lparr>applications := []\<rparr> = st\<lparr>applications := []\<rparr>)
          \<and> delete_application st u aid
              = (Inr (),
                 st\<lparr>applications := filter (\<lambda>x. app_id x \<noteq> aid) (applications st)\<rparr>))
       \<and> (user_role u = Applicant \<longrightarrow>
            update_application_status st u aid b = (Inl forbidden, st))"
  using assms own_application_id[OF assms]
  by (auto simp: update_application_def delete_application_def update_application_status_def
      authorize_def)

text \<open>
  Applicant 2 on application 1: after the employer has set it to \<^verbatim>\<open>'reviewed'\<close>
  both requests are refused; while it is \<^verbatim>\<open>'pending'\<close> the withdrawal empties
  the table.
\<close>

theorem applicant_changes_only_pending_witness:
  "own_application (applied_db ''reviewed'') applicant2 1 = Some (sample_application ''reviewed'')
   \<and> update_application (applied_db ''reviewed'') applicant2 1 (Some ''Dear all'')
       = (Inl \<lparr>status = 400,
               error = Text ''Cannot update application after it has been reviewed''\<rparr>,
          applied_db ''reviewed'')
   \<and> delete_application (applied_db ''reviewed'') applicant2 1
       = (Inl \<lparr>status = 400,
               error = Text ''Cannot withdraw application after it has been reviewed''\<rparr>,
          applied_db ''reviewed'')
   \<and> own_application (applied_db ''pending'') applicant2 1 = Some (sample_application ''pending'')
   \<and> delete_application (applied_db ''pending'') applicant2 1
       = (Inr (), sample_db\<lparr>next_application_id := 2\<rparr>)"
  using applicant_changes_only_pending
    [of "applied_db ''reviewed''" applicant2 1 "sample_application ''reviewed''"
        "Some ''Dear all''"]
    applicant_changes_only_pending
    [of "applied_db ''pending''" applicant2 1 "sample_application ''pending''"
        "Some ''Dear all''"]
  by (simp add: sample_data own_application_def bad_request_def)

text \<open>
  Application 1 is set to \<^verbatim>\<open>'reviewed'\<close> by employer 1, who owns its job, and then
  back to \<^verbatim>\<open>'pending'\<close>; after that applicant 2 withdraws it, and the withdrawal
  succeeds.
\<close>

theorem applicant_changes_only_pending_counterexample:
  "update_application_status (applied_db ''pending'') employer1 1
       \<lparr>sb_status = Some ''reviewed'', sb_notes = None\<rparr>
     = (Inr (sample_application ''reviewed''), applied_db ''reviewed'')
   \<and> update_application_status (applied_db ''reviewed'') employer1 1
       \<lparr>sb_status = Some ''pending'', sb_notes = None\<rparr>
     = (Inr (sample_application ''pending''), applied_db ''pending'')
   \<and> fst (delete_application (applied_db ''pending'') applicant2 1) = Inr ()
   \<and> applications (snd (delete_application (applied_db ''pending'') applicant2 1)) = []"
  by (simp add: sample_data update_application_status_def authorize_def
      update_status_handler_def application_statuses_def job_owned_by_def given_def
      delete_application_def own_application_def Let_def)

subsection \<open>The status of every application stays within the enumeration\<close>

lemma tally_sum:
  "statuses_valid apps \<Longrightarrow>
     pending (tally apps) + reviewed (tally apps) + shortlisted (tally apps)
       + rejected (tally apps) + hired (tally apps) = total (tally apps)"
  by (induction apps) (auto simp: tally_def count_status_def application_statuses_def)

lemma statuses_valid_filter: "statuses_valid apps \<Longrightarrow> statuses_valid (filter P apps)"
  by (simp add: list_all_iff)

lemma find_or_create_skill_applications:
  "applications (snd (find_or_create_skill st d)) = applications st"
  by (simp add: find_or_create_skill_def Let_def split: option.splits)

lemma create_resume_skill_applications:
  "create_resume_skill st rid sid d = Some st' \<Longrightarrow> applications st' = applications st"
  by (auto simp: create_resume_skill_def split: if_splits)

lemma add_skills_applications: "applications (snd (add_skills rid ds st)) = applications st"
proof (induction ds arbitrary: st)
  case Nil
  show ?case by simp
next
  case (Cons d ds)
  obtain s st1 where f: "find_or_create_skill st d = (s, st1)"
    by (cases "find_or_create_skill st d")
  then have a1: "applications st1 = applications st"
    using find_or_create_skill_applications[of st d] by simp
  show ?case
  proof (cases "create_resume_skill st1 rid (skill_id s) d")
    case None
    with f a1 show ?thesis by simp
  next
    case (Some st2)
    with f a1 Cons.IH[of st2] create_resume_skill_applications[OF Some] show ?thesis by simp
  qed
qed

lemma add_work_experience_applications:
  "applications (add_work_experience rid ws st) = applications st"
  by (induction ws arbitrary: st) simp_all

lemma add_education_applications:
  "applications (add_education rid es st) = applications st"
  by (induction es arbitrary: st) simp_all

lemma create_resume_applications:
  "applications (snd (create_resume st u rb file)) = applications st"
proof -
  have "applications (snd (create_resume_handler st u rb file)) = applications st"
  proof (cases "rb_title rb")
    case None
    then show ?thesis by (simp add: create_resume_handler_def)
  next
    case (Some t)
    let ?st1 = "st\<lparr>resumes := resumes st @ [new_resume st u t rb file],
                   next_resume_id := next_resume_id st + 1\<rparr>"
    obtain ok st2 where a: "add_skills (resume_id (new_resume st u t rb file))
        (or_else (rb_skills rb) []) ?st1 = (ok, st2)"
      by (cases "add_skills (resume_id (new_resume st u t rb file)) (or_else (rb_skills rb) []) ?st1")
    then have "applications st2 = applications st"
      using add_skills_applications[of "resume_id (new_resume st u t rb file)"
          "or_else (rb_skills rb) []" ?st1] by simp
    with Some a show ?thesis
      by (cases ok)
         (simp_all add: create_resume_handler_def Let_def add_education_applications
            add_work_experience_applications split: query.splits)
  qed
  then show ?thesis
    by (simp add: create_resume_def split: option.splits)
qed

lemma update_resume_applications:
  "applications (snd (update_resume st u rid rb file)) = applications st"
proof -
  have "applications (snd (update_resume_handler st u rid rb file)) = applications st"
  proof (cases "own_resume st u rid")
    case None
    then show ?thesis by (simp add: update_resume_handler_def)
  next
    case (Some r)
    show ?thesis
    proof (cases "rb_skills rb")
      case None
      with Some show ?thesis
        by (simp add: update_resume_handler_def Let_def split: query.splits)
    next
      case (Some ds)
      let ?st1 = "st\<lparr>resumes := map (\<lambda>x. if resume_id x = resume_id r
                         then apply_resume_body rb file x else x) (resumes st)\<rparr>"
      obtain ok st2 where a: "replace_skills (resume_id r) ds ?st1 = (ok, st2)"
        by (cases "replace_skills (resume_id r) ds ?st1")
      then have "applications st2 = applications st"
        using add_skills_applications[of "resume_id r" ds
            "?st1\<lparr>resume_skills := filter (\<lambda>l. rs_resume_id l \<noteq> resume_id r)
                (resume_skills ?st1)\<rparr>"]
        by (simp add: replace_skills_def)
      with \<open>own_resume st u rid = Some r\<close> Some a show ?thesis
        by (cases ok) (simp_all add: update_resume_handler_def Let_def split: query.splits)
    qed
  qed
  then show ?thesis
    by (simp add: update_resume_def split: option.splits)
qed

lemma save_matches_applications: "applications (save_matches rid ms st) = applications st"
  by (induction rid ms st rule: save_matches.induct) (simp_all add: insert_ai_analysis_def)

lemma delete_jobs_statuses:
  "statuses_valid (applications st) \<Longrightarrow> statuses_valid (applications (delete_jobs P st))"
  by (simp add: delete_jobs_def Let_def list_all_iff)

lemma delete_resumes_statuses:
  "statuses_valid (applications st) \<Longrightarrow> statuses_valid (applications (delete_resumes P st))"
  by (simp add: delete_resumes_def Let_def list_all_iff)

lemma delete_users_statuses:
  "statuses_valid (applications st) \<Longrightarrow> statuses_valid (applications (delete_users P st))"
  using delete_jobs_statuses delete_resumes_statuses
  by (simp add: delete_users_def Let_def statuses_valid_filter)

lemma reachable_statuses_valid: "reachable st \<Longrightarrow> statuses_valid (applications st)"
proof (induction rule: reachable.induct)
  case (start st)
  then show ?case by simp
next
  case (user_inserted st u)
  then show ?case by simp
next
  case (user_deleted st uid)
  then show ?case by (simp add: destroy_user_def delete_users_statuses)
next
  case (job_created st to_number u now jb)
  then show ?case
    by (auto simp: create_job_def create_job_handler_def Let_def split: option.splits)
next
  case (job_updated st to_number u now jid jb)
  then show ?case
    by (auto simp: update_job_def update_job_handler_def split: option.splits)
next
  case (job_deleted st u jid)
  then show ?case
    by (auto simp: delete_job_def destroy_job_def delete_jobs_statuses split: option.splits)
next
  case (job_toggled st u jid)
  then show ?case by (auto simp: toggle_status_def split: option.splits)
next
  case (application_created st u now ab)
  then show ?case
    by (auto simp: create_application_def create_application_handler_def Let_def
        application_statuses_def split: option.splits)
next
  case (application_updated st u aid c)
  then show ?case
    by (auto simp: update_application_def list_all_iff split: option.splits)
next
  case (application_deleted st u aid)
  then show ?case
    by (auto simp: delete_application_def list_all_iff split: option.splits)
next
  case (status_updated st u aid sb)
  then show ?case
    by (auto simp: update_application_status_def update_status_handler_def Let_def
        list_all_iff split: option.splits)
next
  case (resume_created st u rb fl)
  then show ?case by (simp add: create_resume_applications)
next
  case (resume_updated st u rid rb fl)
  then show ?case by (simp add: update_resume_applications)
next
  case (resume_deleted st u rid)
  then show ?case
    by (auto simp: delete_resume_def destroy_resume_def delete_resumes_statuses
        split: option.splits)
next
  case (resume_analyzed st u rid svc)
  then show ?case
    by (auto simp: analyze_resume_def insert_ai_analysis_def
        split: query.splits option.splits prod.splits completion.splits)
next
  case (jobs_matched st u rid msvc)
  then show ?case
    by (auto simp: match_jobs_def Let_def save_matches_applications
        split: query.splits option.splits prod.splits completion.splits)
next
  case (gap_analyzed st u rid tr ti svc)
  then show ?case
    by (auto simp: skill_gap_analysis_def insert_ai_analysis_def
        split: query.splits option.splits prod.splits completion.splits)
qed

text \<open>
  C10.  In every store that the routes can produce, the statistics that an applicant or
  an employer is given add up: the five counts by status sum to the total.
\<close>

theorem stats_overview_sum:
  assumes "reachable st" and "user_role u = Applicant \<or> user_role u = Employer"
  shows "\<exists>s. stats_overview st u = Some s
           \<and> pending s + reviewed s + shortlisted s + rejected s + hired s = total s"
proof -
  have "statuses_valid (applications st)"
    using assms(1) by (rule reachable_statuses_valid)
  then have "statuses_valid (filter P (applications st))" for P
    by (rule statuses_valid_filter)
  then show ?thesis
    using assms(2) by (auto simp: stats_overview_def intro!: tally_sum)
qed

lemma applied_db_reachable: "reachable (applied_db ''pending'')"
proof -
  have "reachable sample_db"
    by (rule reachable.start) (simp add: sample_data)
  then have "reachable (snd (create_application sample_db applicant2 0
      \<lparr>ab_job_id = Some 1, ab_resume_id = Some 1, ab_cover_letter = Some ''Dear team''\<rparr>))"
    by (rule reachable.application_created)
  moreover have "snd (create_application sample_db applicant2 0
      \<lparr>ab_job_id = Some 1, ab_resume_id = Some 1, ab_cover_letter = Some ''Dear team''\<rparr>)
      = applied_db ''pending''"
    by (simp add: sample_data application_checks create_application_def authorize_def
        create_application_handler_def Let_def)
  ultimately show ?thesis by simp
qed

text \<open>
  After applicant 2 has applied to job 1 of employer 1, both are shown one application,
  pending.
\<close>

theorem stats_overview_sum_witness:
  "reachable (applied_db ''pending'')
   \<and> stats_overview (applied_db ''pending'') applicant2
       = Some \<lparr>total = 1, pending = 1, reviewed = 0, shortlisted = 0, rejected = 0, hired = 0\<rparr>
   \<and> stats_overview (applied_db ''pending'') employer1
       = Some \<lparr>total = 1, pending = 1, reviewed = 0, shortlisted = 0, rejected = 0, hired = 0\<rparr>"
  using applied_db_reachable
    stats_overview_sum[OF applied_db_reachable, of applicant2]
    stats_overview_sum[OF applied_db_reachable, of employer1]
  by (simp add: sample_data stats_overview_def tally_def count_status_def job_owned_by_def)

section \<open>Properties of the cascading deletes\<close>

lemma survivor_id:
  "i \<in> f ` set xs \<Longrightarrow> i \<notin> f ` {x \<in> set xs. P x} \<Longrightarrow> i \<in> f ` {x \<in> set xs. \<not> P x}"
  by auto

lemma ref_ok_survivor:
  "ref_ok ref (map f xs) \<Longrightarrow> \<not> points_into ref (map f (filter P xs))
     \<Longrightarrow> ref_ok ref (map f (filter (\<lambda>x. \<not> P x) xs))"
  by (cases ref) (auto simp: ref_ok_def points_into_def)

lemma delete_jobs_integrity:
  assumes "referential_integrity st"
  shows "referential_integrity (delete_jobs P st)"
  using assms
  by (simp add: referential_integrity_def delete_jobs_def Let_def list_all_iff
      ref_ok_survivor survivor_id)

lemma delete_resumes_integrity:
  assumes "referential_integrity st"
  shows "referential_integrity (delete_resumes P st)"
  using assms
  by (simp add: referential_integrity_def delete_resumes_def Let_def list_all_iff
      ref_ok_survivor survivor_id)

lemma delete_users_integrity:
  assumes "referential_integrity st"
  shows "referential_integrity (delete_users P st)"
proof -
  define gone where "gone = map user_id (filter P (users st))"
  define st1 where "st1 = delete_resumes (\<lambda>r. resume_user_id r \<in> set gone) st"
  define st2 where "st2 = delete_jobs (\<lambda>j. employer_id j \<in> set gone) st1"
  have i2: "referential_integrity st2"
    unfolding st2_def st1_def
    by (intro delete_jobs_integrity delete_resumes_integrity assms)
  have u2: "users st2 = users st"
    by (simp add: st2_def st1_def delete_jobs_def delete_resumes_def Let_def)
  have r2: "list_all (\<lambda>r. resume_user_id r \<notin> set gone) (resumes st2)"
    by (simp add: st2_def st1_def delete_jobs_def delete_resumes_def Let_def list_all_iff)
  have j2: "list_all (\<lambda>j. employer_id j \<notin> set gone) (jobs st2)"
    by (simp add: st2_def st1_def delete_jobs_def delete_resumes_def Let_def list_all_iff)
  have "referential_integrity
      (st2\<lparr>users := filter (\<lambda>u. \<not> P u) (users st2),
           applications := filter (\<lambda>a. applicant_id a \<notin> set gone) (applications st2)\<rparr>)"
    using i2 r2 j2 unfolding gone_def u2[symmetric]
    by (simp add: referential_integrity_def Let_def list_all_iff survivor_id)
  then show ?thesis
    by (simp add: delete_users_def Let_def gone_def st1_def st2_def)
qed

lemma destroy_job_no_reference:
  assumes "referential_integrity st"
  shows "no_reference_to_job jid (destroy_job jid st)"
  using assms
  by (auto simp: referential_integrity_def no_reference_to_job_def destroy_job_def
      delete_jobs_def Let_def list_all_iff points_into_def ref_ok_def split: option.splits)

lemma dangling_ai_resume:
  assumes "list_all (\<lambda>x. ref_ok (ai_resume_id x) (map resume_id rs)) ais"
  shows "list_all (\<lambda>x. ai_resume_id x \<noteq> Some rid)
           (filter (\<lambda>x. \<not> points_into (ai_resume_id x)
                           (map resume_id (filter (\<lambda>r. resume_id r = rid) rs))) ais)"
  unfolding list_all_iff
proof
  fix x
  assume x: "x \<in> set (filter (\<lambda>x. \<not> points_into (ai_resume_id x)
      (map resume_id (filter (\<lambda>r. resume_id r = rid) rs))) ais)"
  show "ai_resume_id x \<noteq> Some rid"
  proof
    assume eq: "ai_resume_id x = Some rid"
    from x assms have "ref_ok (ai_resume_id x) (map resume_id rs)"
      by (simp add: list_all_iff)
    with eq obtain r where "r \<in> set rs" "resume_id r = rid"
      by (auto simp: ref_ok_def)
    then have "rid \<in> set (map resume_id (filter (\<lambda>r. resume_id r = rid) rs))"
      by force
    then have "points_into (ai_resume_id x)
        (map resume_id (filter (\<lambda>r. resume_id r = rid) rs))"
      by (simp only: eq points_into_def option.case)
    with x show False by simp
  qed
qed

lemma destroy_resume_no_reference:
  assumes "referential_integrity st"
  shows "no_reference_to_resume rid (destroy_resume rid st)"
proof -
  have ai: "list_all (\<lambda>x. ref_ok (ai_resume_id x) (map resume_id (resumes st)))
      (ai_analyses st)"
    using assms by (simp add: referential_integrity_def Let_def list_all_iff)
  have "list_all (\<lambda>l. rs_resume_id l \<in> resume_id ` set (resumes st)) (resume_skills st)"
    "list_all (\<lambda>w. we_resume_id w \<in> resume_id ` set (resumes st)) (work_experiences st)"
    "list_all (\<lambda>e. edu_resume_id e \<in> resume_id ` set (resumes st)) (educations st)"
    "list_all (\<lambda>a. app_resume_id a \<in> resume_id ` set (resumes st)) (applications st)"
    using assms by (simp_all add: referential_integrity_def Let_def list_all_iff)
  then show ?thesis
    using dangling_ai_resume[OF ai, of rid]
    by (auto simp: no_reference_to_resume_def destroy_resume_def delete_resumes_def Let_def
        list_all_iff)
qed

lemma destroy_user_no_reference:
  assumes "referential_integrity st"
  shows "no_reference_to_user uid (destroy_user uid st)"
  using assms
  by (auto simp: referential_integrity_def no_reference_to_user_def destroy_user_def
      delete_users_def delete_resumes_def delete_jobs_def Let_def list_all_iff)

lemma delete_resume_cases:
  "delete_resume st u rid = (Inl (not_found ''Resume not found''), st)
   \<or> delete_resume st u rid = (Inr (), destroy_resume rid st)"
  by (auto simp: delete_resume_def own_resume_def split: option.splits dest: find_Some_iff[THEN iffD1])

lemma delete_job_cases:
  "delete_job st u jid = (Inl forbidden, st)
   \<or> delete_job st u jid = (Inl (not_found ''Job not found or access denied''), st)
   \<or> delete_job st u jid = (Inr (), destroy_job jid st)"
  by (auto simp: delete_job_def own_job_def authorize_def split: option.splits
      dest: find_Some_iff[THEN iffD1])

text \<open>
  C7.  In a store with referential integrity, deleting a user, a resume or a job by its
  key leaves a store with referential integrity, in which the deleted row is gone and
  no row of any table points to it: the children went with it, and the children of the
  deleted children in turn.  The handlers \<^verbatim>\<open>DELETE /api/resumes/:id\<close> and
  \<^verbatim>\<open>DELETE /api/jobs/:id\<close> either refuse and change nothing, or perform exactly the
  delete of the parent row.
\<close>

theorem cascading_deletes:
  assumes "referential_integrity st"
  shows "referential_integrity (destroy_user uid st)
       \<and> no_reference_to_user uid (destroy_user uid st)
       \<and> uid \<notin> set (map user_id (users (destroy_user uid st)))
       \<and> referential_integrity (destroy_resume rid st)
       \<and> no_reference_to_resume rid (destroy_resume rid st)
       \<and> rid \<notin> set (map resume_id (resumes (destroy_resume rid st)))
       \<and> referential_integrity (destroy_job jid st)
       \<and> no_reference_to_job jid (destroy_job jid st)
       \<and> jid \<notin> set (map job_id (jobs (destroy_job jid st)))
       \<and> referential_integrity (snd (delete_resume st u rid))
       \<and> (fst (delete_resume st u rid) = Inr ()
            \<longrightarrow> snd (delete_resume st u rid) = destroy_resume rid st)
       \<and> referential_integrity (snd (delete_job st u jid))
       \<and> (fst (delete_job st u jid) = Inr ()
            \<longrightarrow> snd (delete_job st u jid) = destroy_job jid st)"
proof -
  have user: "referential_integrity (destroy_user uid st)"
    unfolding destroy_user_def by (rule delete_users_integrity[OF assms])
  have resume: "referential_integrity (destroy_resume rid st)"
    unfolding destroy_resume_def by (rule delete_resumes_integrity[OF assms])
  have job: "referential_integrity (destroy_job jid st)"
    unfolding destroy_job_def by (rule delete_jobs_integrity[OF assms])
  have gone: "uid \<notin> set (map user_id (users (destroy_user uid st)))"
    "rid \<notin> set (map resume_id (resumes (destroy_resume rid st)))"
    "jid \<notin> set (map job_id (jobs (destroy_job jid st)))"
    by (auto simp: destroy_user_def delete_users_def destroy_resume_def delete_resumes_def
        destroy_job_def delete_jobs_def Let_def)
  have dr: "referential_integrity (snd (delete_resume st u rid))"
     "fst (delete_resume st u rid) = Inr ()
        \<longrightarrow> snd (delete_resume st u rid) = destroy_resume rid st"
    using delete_resume_cases[of st u rid] assms resume by auto
  have dj: "referential_integrity (snd (delete_job st u jid))"
     "fst (delete_job st u jid) = Inr ()
        \<longrightarrow> snd (delete_job st u jid) = destroy_job jid st"
    using delete_job_cases[of st u jid] assms job by auto
  show ?thesis
    using user resume job gone dr dj
      destroy_user_no_reference[OF assms, of uid]
      destroy_resume_no_reference[OF assms, of rid]
      destroy_job_no_reference[OF assms, of jid]
    by simp
qed

text \<open>
  Deleting employer 1 takes job 1 along and, with the job, the application of
  applicant 2; deleting resume 1 or job 1 takes the application along as well.
\<close>

theorem cascading_deletes_witness:
  "referential_integrity (applied_db ''pending'')
   \<and> referential_integrity (destroy_user 1 (applied_db ''pending''))
   \<and> jobs (destroy_user 1 (applied_db ''pending'')) = []
   \<and> applications (destroy_user 1 (applied_db ''pending'')) = []
   \<and> applications (destroy_resume 1 (applied_db ''pending'')) = []
   \<and> applications (snd (delete_job (applied_db ''pending'') employer1 1)) = []"
proof -
  have i: "referential_integrity (applied_db ''pending'')"
    by code_simp
  have c: "jobs (destroy_user 1 (applied_db ''pending'')) = []"
    "applications (destroy_user 1 (applied_db ''pending'')) = []"
    "applications (destroy_resume 1 (applied_db ''pending'')) = []"
    "applications (snd (delete_job (applied_db ''pending'') employer1 1)) = []"
    by code_simp+
  from cascading_deletes[OF i, of 1 1 1 employer1] i c show ?thesis
    by simp
qed

section \<open>Properties of the resume routes\<close>

lemma find_by_key:
  "distinct (map f xs) \<Longrightarrow> x \<in> set xs \<Longrightarrow> find (\<lambda>y. f y = f x) xs = Some x"
  by (induction xs) (auto simp: image_iff)

lemma find_append_found:
  "find P xs = Some x \<Longrightarrow> find P (xs @ ys) = Some x"
  by (induction xs) auto

lemma find_Some_mem: "find P xs = Some x \<Longrightarrow> x \<in> set xs \<and> P x"
  by (induction xs) (auto split: if_splits)

lemma linked_skills_cong:
  assumes "resume_skills st' = resume_skills st"
    and "\<And>l. l \<in> set (resume_skills st) \<Longrightarrow> rs_resume_id l = rid \<Longrightarrow>
           find (\<lambda>s. skill_id s = rs_skill_id l) (skills st')
             = find (\<lambda>s. skill_id s = rs_skill_id l) (skills st)"
  shows "linked_skills st' rid = linked_skills st rid"
  unfolding linked_skills_def assms(1)
  by (rule map_cong[OF refl]) (simp add: assms(2))

lemma find_or_create_skill_inv:
  assumes "loop_inv rid names st" and "find_or_create_skill st d = (s, st1)"
  shows "loop_inv rid names st1 \<and> s \<in> set (skills st1) \<and> skill_name s = sk_name d
       \<and> resume_skills st1 = resume_skills st
       \<and> (\<exists>new. skills st1 = skills st @ new
             \<and> map skill_name new
                 = (if sk_name d \<in> skill_name ` set (skills st) then [] else [sk_name d]))
       \<and> linked_skills st1 rid = linked_skills st rid"
proof (cases "find (\<lambda>s. skill_name s = sk_name d) (skills st)")
  case (Some s0)
  with assms(2) have "s = s0" "st1 = st"
    by (simp_all add: find_or_create_skill_def)
  moreover from find_Some_mem[OF Some] have "sk_name d \<in> skill_name ` set (skills st)"
    by force
  ultimately show ?thesis
    using Some assms(1) by (auto dest: find_Some_mem)
next
  case None
  define s' where "s' = \<lparr>skill_id = next_skill_id st, skill_name = sk_name d,
      skill_category = str_or (sk_category d) ''General''\<rparr>"
  from None assms(2) have s: "s = s'"
    and st1: "st1 = st\<lparr>skills := skills st @ [s'], next_skill_id := next_skill_id st + 1\<rparr>"
    by (auto simp: find_or_create_skill_def Let_def s'_def)
  from None have absent: "sk_name d \<notin> skill_name ` set (skills st)"
    by (auto simp: find_None_iff)
  have fresh: "skill_id s' \<notin> skill_id ` set (skills st)"
    using assms(1) by (auto simp: loop_inv_def list_all_iff s'_def)
  have inv: "loop_inv rid names st1"
    using assms(1) fresh
    by (auto simp: loop_inv_def st1 list_all_iff s'_def)
  have "linked_skills st1 rid = linked_skills st rid"
  proof (rule linked_skills_cong)
    show "resume_skills st1 = resume_skills st" by (simp add: st1)
  next
    fix l
    assume "l \<in> set (resume_skills st)" "rs_resume_id l = rid"
    with assms(1) obtain s0 where s0: "s0 \<in> set (skills st)" "skill_id s0 = rs_skill_id l"
      by (auto simp: loop_inv_def list_all_iff)
    from assms(1) have "distinct (map skill_id (skills st))"
      by (simp add: loop_inv_def)
    from find_by_key[OF this s0(1)] s0(2)
    have "find (\<lambda>s. skill_id s = rs_skill_id l) (skills st) = Some s0"
      by simp
    then show "find (\<lambda>s. skill_id s = rs_skill_id l) (skills st1)
        = find (\<lambda>s. skill_id s = rs_skill_id l) (skills st)"
      by (simp add: st1 find_append_found)
  qed
  with inv s st1 absent show ?thesis
    by (simp add: s'_def)
qed

lemma same_key_same_row:
  "distinct (map f xs) \<Longrightarrow> x \<in> set xs \<Longrightarrow> y \<in> set xs \<Longrightarrow> f x = f y \<Longrightarrow> x = y"
  by (auto simp: distinct_map dest: inj_onD)

lemma create_resume_skill_inv:
  assumes inv: "loop_inv rid (sk_name d # names) st1"
    and s: "s \<in> set (skills st1)" "skill_name s = sk_name d"
    and new: "sk_name d \<notin> set names"
  shows "\<exists>st2. create_resume_skill st1 rid (skill_id s) d = Some st2
           \<and> loop_inv rid names st2 \<and> skills st2 = skills st1
           \<and> linked_skills st2 rid = linked_skills st1 rid @ [supplied_skill d]"
proof -
  from inv have dist: "distinct (map skill_id (skills st1))"
    by (simp add: loop_inv_def)
  have free: "\<not> list_ex (\<lambda>l. rs_resume_id l = rid \<and> rs_skill_id l = skill_id s)
      (resume_skills st1)"
  proof
    assume "list_ex (\<lambda>l. rs_resume_id l = rid \<and> rs_skill_id l = skill_id s) (resume_skills st1)"
    then obtain l where l: "l \<in> set (resume_skills st1)" "rs_resume_id l = rid"
        "rs_skill_id l = skill_id s"
      by (auto simp: list_ex_iff)
    with inv obtain s' where s': "s' \<in> set (skills st1)" "skill_id s' = skill_id s"
        "skill_name s' \<notin> set (sk_name d # names)"
      by (auto simp: loop_inv_def list_all_iff)
    from same_key_same_row[OF dist s'(1) s(1) s'(2)] have "s' = s" .
    with s'(3) s(2) show False by simp
  qed
  define link where "link = \<lparr>rs_id = next_resume_skill_id st1, rs_resume_id = rid,
      rs_skill_id = skill_id s,
      proficiency_level = str_or (sk_proficiency_level d) ''intermediate'',
      rs_years_experience = or_else (sk_years_experience d) 0\<rparr>"
  define st2 where "st2 = st1\<lparr>resume_skills := resume_skills st1 @ [link],
      next_resume_skill_id := next_resume_skill_id st1 + 1\<rparr>"
  have created: "create_resume_skill st1 rid (skill_id s) d = Some st2"
    using free by (simp add: create_resume_skill_def st2_def link_def)
  have inv2: "loop_inv rid names st2"
    using inv s new
    by (auto simp: loop_inv_def list_all_iff st2_def link_def)
  have "find (\<lambda>x. skill_id x = skill_id s) (skills st1) = Some s"
    by (rule find_by_key[OF dist s(1)])
  then have "linked_skills st2 rid = linked_skills st1 rid @ [supplied_skill d]"
    by (simp add: linked_skills_def st2_def link_def supplied_skill_def s(2))
  with created inv2 show ?thesis
    by (simp add: st2_def)
qed

lemma add_skills_links:
  assumes "loop_inv rid (map sk_name ds) st" and "distinct (map sk_name ds)"
  shows "\<exists>st'. add_skills rid ds st = (True, st')
           \<and> linked_skills st' rid = linked_skills st rid @ map supplied_skill ds
           \<and> (\<exists>new. skills st' = skills st @ new
                 \<and> map skill_name new
                     = filter (\<lambda>n. n \<notin> skill_name ` set (skills st)) (map sk_name ds))"
  using assms
proof (induction ds arbitrary: st)
  case Nil
  then show ?case by simp
next
  case (Cons d ds)
  obtain s st1 where f: "find_or_create_skill st d = (s, st1)"
    by (cases "find_or_create_skill st d")
  from Cons.prems(1) have "loop_inv rid (sk_name d # map sk_name ds) st"
    by simp
  from find_or_create_skill_inv[OF this f]
  have st1: "loop_inv rid (sk_name d # map sk_name ds) st1" "s \<in> set (skills st1)"
      "skill_name s = sk_name d"
      "linked_skills st1 rid = linked_skills st rid"
    and "\<exists>new. skills st1 = skills st @ new
             \<and> map skill_name new
                 = (if sk_name d \<in> skill_name ` set (skills st) then [] else [sk_name d])"
    by simp_all
  then obtain new1 where new1: "skills st1 = skills st @ new1"
      "map skill_name new1
         = (if sk_name d \<in> skill_name ` set (skills st) then [] else [sk_name d])"
    by blast
  from Cons.prems(2) have fresh: "sk_name d \<notin> set (map sk_name ds)"
    and rest: "distinct (map sk_name ds)"
    by simp_all
  from create_resume_skill_inv[OF st1(1-3) fresh] obtain st2 where
    st2: "create_resume_skill st1 rid (skill_id s) d = Some st2"
      "loop_inv rid (map sk_name ds) st2" "skills st2 = skills st1"
      "linked_skills st2 rid = linked_skills st1 rid @ [supplied_skill d]"
    by blast
  from Cons.IH[OF st2(2) rest] obtain st' new2 where
    st': "add_skills rid ds st2 = (True, st')"
      "linked_skills st' rid = linked_skills st2 rid @ map supplied_skill ds"
      "skills st' = skills st2 @ new2"
      "map skill_name new2
         = filter (\<lambda>n. n \<notin> skill_name ` set (skills st2)) (map sk_name ds)"
    by blast
  have names: "skill_name ` set (skills st2)
      = skill_name ` set (skills st) \<union> set (map skill_name new1)"
    by (simp add: st2(3) new1(1) image_Un)
  have same: "filter (\<lambda>n. n \<notin> skill_name ` set (skills st2)) (map sk_name ds)
      = filter (\<lambda>n. n \<notin> skill_name ` set (skills st)) (map sk_name ds)"
  proof (rule filter_cong[OF refl])
    fix n
    assume "n \<in> set (map sk_name ds)"
    with fresh have "n \<noteq> sk_name d"
      by blast
    then show "(n \<notin> skill_name ` set (skills st2)) = (n \<notin> skill_name ` set (skills st))"
      by (auto simp: names new1(2))
  qed
  have "add_skills rid (d # ds) st = (True, st')"
    using f st2(1) st'(1) by simp
  moreover have "linked_skills st' rid = linked_skills st rid @ map supplied_skill (d # ds)"
    using st'(2) st2(4) st1(4) by simp
  moreover have "skills st' = skills st @ (new1 @ new2)"
    using st'(3) st2(3) new1(1) by simp
  moreover have "map skill_name (new1 @ new2)
      = filter (\<lambda>n. n \<notin> skill_name ` set (skills st)) (map sk_name (d # ds))"
    using st'(4) new1(2) same by simp
  ultimately show ?case by blast
qed

lemma linked_skills_tables:
  "skills st' = skills st \<Longrightarrow> resume_skills st' = resume_skills st
     \<Longrightarrow> linked_skills st' rid = linked_skills st rid"
  by (simp add: linked_skills_def)

lemma add_work_experience_tables:
  "skills (add_work_experience rid ws st) = skills st
   \<and> resume_skills (add_work_experience rid ws st) = resume_skills st"
  by (induction ws arbitrary: st) simp_all

lemma add_education_tables:
  "skills (add_education rid es st) = skills st
   \<and> resume_skills (add_education rid es st) = resume_skills st"
  by (induction es arbitrary: st) simp_all

lemma no_links_loop_inv:
  assumes "distinct (map skill_id (skills st))"
    and "list_all (\<lambda>s. skill_id s < next_skill_id st) (skills st)"
    and "list_all (\<lambda>l. rs_resume_id l \<noteq> rid) (resume_skills st)"
  shows "loop_inv rid names st" and "linked_skills st rid = []"
  using assms by (auto simp: loop_inv_def linked_skills_def list_all_iff filter_empty_conv)

lemma validateResume_title: "validateResume b = None \<Longrightarrow> \<exists>t. rb_title b = Some t"
  by (auto simp: validateResume_def resume_schema_def first_violation_None
      check_resume_title_def split: option.splits)

lemma complete_resume_throws: "find_resume complete_resume st P = Throws"
  by (simp add: find_resume_def complete_resume_def associations_def)

lemma create_resume_links:
  assumes "keys_ok st" and "validateResume b = None" and "rb_skills b = Some ds"
    and "distinct (map sk_name ds)"
  shows "\<exists>st'. create_resume st u b fl
             = (Inl (server_error ''Failed to create resume''), st')
           \<and> linked_skills st' (next_resume_id st) = map supplied_skill ds
           \<and> (\<exists>new. skills st' = skills st @ new
                 \<and> map skill_name new
                     = filter (\<lambda>n. n \<notin> skill_name ` set (skills st)) (map sk_name ds))"
proof -
  from validateResume_title[OF assms(2)] obtain t where t: "rb_title b = Some t" ..
  define r where "r = new_resume st u t b fl"
  define st1 where
    "st1 = st\<lparr>resumes := resumes st @ [r], next_resume_id := next_resume_id st + 1\<rparr>"
  have rid: "resume_id r = next_resume_id st"
    by (simp add: r_def new_resume_def)
  have none: "list_all (\<lambda>l. rs_resume_id l \<noteq> resume_id r) (resume_skills st1)"
    using assms(1) by (fastforce simp: keys_ok_def list_all_iff st1_def rid)
  have keys: "distinct (map skill_id (skills st1))"
    "list_all (\<lambda>s. skill_id s < next_skill_id st1) (skills st1)"
    using assms(1) by (simp_all add: keys_ok_def st1_def)
  have inv: "loop_inv (resume_id r) (map sk_name ds) st1"
    and empty: "linked_skills st1 (resume_id r) = []"
    by (rule no_links_loop_inv[OF keys none])+
  from add_skills_links[OF inv assms(4)] empty obtain st2 where
    st2: "add_skills (resume_id r) ds st1 = (True, st2)"
      "linked_skills st2 (resume_id r) = map supplied_skill ds"
      "\<exists>new. skills st2 = skills st1 @ new
          \<and> map skill_name new
              = filter (\<lambda>n. n \<notin> skill_name ` set (skills st1)) (map sk_name ds)"
    by auto
  define st3 where "st3 = add_education (resume_id r) (or_else (rb_education b) [])
      (add_work_experience (resume_id r) (or_else (rb_work_experience b) []) st2)"
  have tables: "skills st3 = skills st2" "resume_skills st3 = resume_skills st2"
    by (simp_all add: st3_def add_education_tables add_work_experience_tables)
  have "create_resume st u b fl = (Inl (server_error ''Failed to create resume''), st3)"
    using assms(2,3) t st2(1)
    by (simp add: create_resume_def create_resume_handler_def Let_def or_else_def
        r_def[symmetric] st1_def[symmetric] st3_def complete_resume_throws)
  moreover have "linked_skills st3 (next_resume_id st) = map supplied_skill ds"
    using linked_skills_tables[OF tables] st2(2) rid by simp
  moreover have "\<exists>new. skills st3 = skills st @ new
      \<and> map skill_name new
          = filter (\<lambda>n. n \<notin> skill_name ` set (skills st)) (map sk_name ds)"
    using st2(3) tables(1) by (simp add: st1_def)
  ultimately show ?thesis by blast
qed

lemma update_resume_links:
  assumes "keys_ok st" and "validateResume b = None" and "rb_skills b = Some ds"
    and "distinct (map sk_name ds)" and "own_resume st u rid = Some r0"
  shows "\<exists>st'. update_resume st u rid b fl
             = (Inl (server_error ''Failed to update resume''), st')
           \<and> linked_skills st' rid = map supplied_skill ds
           \<and> (\<exists>new. skills st' = skills st @ new
                 \<and> map skill_name new
                     = filter (\<lambda>n. n \<notin> skill_name ` set (skills st)) (map sk_name ds))"
proof -
  from assms(5) have rid: "resume_id r0 = rid"
    by (auto simp: own_resume_def dest: find_Some_mem)
  define st1' where
    "st1' = st\<lparr>resumes := map (\<lambda>x. if resume_id x = rid
                                    then apply_resume_body b fl x else x) (resumes st),
               resume_skills := filter (\<lambda>l. rs_resume_id l \<noteq> rid) (resume_skills st)\<rparr>"
  have none: "list_all (\<lambda>l. rs_resume_id l \<noteq> rid) (resume_skills st1')"
    by (simp add: st1'_def list_all_iff)
  have keys: "distinct (map skill_id (skills st1'))"
    "list_all (\<lambda>s. skill_id s < next_skill_id st1') (skills st1')"
    using assms(1) by (simp_all add: keys_ok_def st1'_def)
  have inv: "loop_inv rid (map sk_name ds) st1'"
    and empty: "linked_skills st1' rid = []"
    by (rule no_links_loop_inv[OF keys none])+
  from add_skills_links[OF inv assms(4)] empty obtain st2 where
    st2: "add_skills rid ds st1' = (True, st2)"
      "linked_skills st2 rid = map supplied_skill ds"
      "\<exists>new. skills st2 = skills st1' @ new
          \<and> map skill_name new
              = filter (\<lambda>n. n \<notin> skill_name ` set (skills st1')) (map sk_name ds)"
    by auto
  have "update_resume st u rid b fl = (Inl (server_error ''Failed to update resume''), st2)"
    using assms(2,3,5) st2(1)[unfolded st1'_def] rid
    by (simp add: update_resume_def update_resume_handler_def Let_def replace_skills_def
        complete_resume_throws)
  moreover have "\<exists>new. skills st2 = skills st @ new
      \<and> map skill_name new
          = filter (\<lambda>n. n \<notin> skill_name ` set (skills st)) (map sk_name ds)"
    using st2(3) by (simp add: st1'_def)
  ultimately show ?thesis using st2(2) by blast
qed

lemma resume_requests_never_succeed:
  "isl (fst (create_resume st u b fl)) \<and> isl (fst (update_resume st u rid b fl))"
  by (auto simp: create_resume_def create_resume_handler_def update_resume_def
      update_resume_handler_def Let_def complete_resume_throws
      split: option.splits prod.splits bool.splits)

text \<open>
  C2.  In a store whose keys are in order, a well-formed create or update request that
  supplies a list of skills with pairwise distinct names writes what the claim
  describes: afterwards the skills linked to the resume are exactly the supplied ones,
  in their order, each under its name with its proficiency level (\<^verbatim>\<open>'intermediate'\<close>
  when none is given) and years of experience (0 when none are given); on update the
  links the resume had before are gone; the taxonomy keeps its rows, and the rows
  appended to it are those of the supplied names it lacked, one each.  But the request
  is answered with 500: the fetch of the complete resume, with which both handlers
  close, names its associations without the aliases under which they are registered,
  and throws.  No request to either route is answered with the resume.
\<close>

theorem resume_skills_request_fails:
  assumes "keys_ok st" and "validateResume b = None" and "rb_skills b = Some ds"
    and "distinct (map sk_name ds)"
  shows "(\<exists>st'. create_resume st u b fl
              = (Inl (server_error ''Failed to create resume''), st')
            \<and> linked_skills st' (next_resume_id st) = map supplied_skill ds
            \<and> (\<exists>new. skills st' = skills st @ new
                  \<and> map skill_name new
                      = filter (\<lambda>n. n \<notin> skill_name ` set (skills st)) (map sk_name ds)))
       \<and> (\<forall>r0. own_resume st u rid = Some r0 \<longrightarrow>
            (\<exists>st'. update_resume st u rid b fl
                 = (Inl (server_error ''Failed to update resume''), st')
               \<and> linked_skills st' rid = map supplied_skill ds
               \<and> (\<exists>new. skills st' = skills st @ new
                     \<and> map skill_name new
                         = filter (\<lambda>n. n \<notin> skill_name ` set (skills st))
                             (map sk_name ds))))"
  using create_resume_links[OF assms] update_resume_links[OF assms] by blast

text \<open>
  Applicant 2 creates a resume (it gets the key 3) with React, Docker and Rust, of which
  the taxonomy lacks Rust, and then updates it with Python alone.  Both requests are
  answered with 500; the links and the new row of the taxonomy are written.
\<close>

theorem resume_skills_request_fails_witness:
  "keys_ok sample_db
   \<and> validateResume (sample_resume_body
        [sample_skill ''React'' (Some ''advanced'') (Some 4),
         sample_skill ''Docker'' None None, sample_skill ''Rust'' (Some ''beginner'') None]) = None
   \<and> fst (create_resume sample_db applicant2 (sample_resume_body
        [sample_skill ''React'' (Some ''advanced'') (Some 4),
         sample_skill ''Docker'' None None, sample_skill ''Rust'' (Some ''beginner'') None])
        None)
      = Inl \<lparr>status = 500, error = Text ''Failed to create resume''\<rparr>
   \<and> linked_skills (snd (create_resume sample_db applicant2 (sample_resume_body
        [sample_skill ''React'' (Some ''advanced'') (Some 4),
         sample_skill ''Docker'' None None, sample_skill ''Rust'' (Some ''beginner'') None])
        None)) 3
      = [(Some ''React'', ''advanced'', 4), (Some ''Docker'', ''intermediate'', 0),
         (Some ''Rust'', ''beginner'', 0)]
   \<and> map skill_name (skills (snd (create_resume sample_db applicant2 (sample_resume_body
        [sample_skill ''React'' (Some ''advanced'') (Some 4),
         sample_skill ''Docker'' None None, sample_skill ''Rust'' (Some ''beginner'') None])
        None)))
      = map fst sample_skills @ [''Rust'']
   \<and> fst (update_resume
           (snd (create_resume sample_db applicant2 (sample_resume_body
              [sample_skill ''React'' (Some ''advanced'') (Some 4),
               sample_skill ''Docker'' None None,
               sample_skill ''Rust'' (Some ''beginner'') None]) None))
           applicant2 3 (sample_resume_body [sample_skill ''Python'' None (Some 2)]) None)
      = Inl \<lparr>status = 500, error = Text ''Failed to update resume''\<rparr>
   \<and> linked_skills
        (snd (update_resume
           (snd (create_resume sample_db applicant2 (sample_resume_body
              [sample_skill ''React'' (Some ''advanced'') (Some 4),
               sample_skill ''Docker'' None None,
               sample_skill ''Rust'' (Some ''beginner'') None]) None))
           applicant2 3 (sample_resume_body [sample_skill ''Python'' None (Some 2)]) None)) 3
      = [(Some ''Python'', ''intermediate'', 2)]"
proof -
  let ?ds = "[sample_skill ''React'' (Some ''advanced'') (Some 4),
         sample_skill ''Docker'' None None, sample_skill ''Rust'' (Some ''beginner'') None]"
  let ?b1 = "sample_resume_body ?ds"
  let ?b2 = "sample_resume_body [sample_skill ''Python'' None (Some 2)]"
  let ?st1 = "snd (create_resume sample_db applicant2 ?b1 None)"
  have k: "keys_ok sample_db" by code_simp
  have v: "validateResume ?b1 = None" by code_simp
  have s: "rb_skills ?b1 = Some ?ds"
    by (simp add: sample_resume_body_def)
  have d: "distinct (map sk_name ?ds)"
    by (simp add: sample_skill_def)
  have n: "next_resume_id sample_db = 3"
    by (simp add: sample_data)
  have old: "map skill_name (skills sample_db) = map fst sample_skills" by code_simp
  have lacking: "filter (\<lambda>n. n \<notin> skill_name ` set (skills sample_db)) (map sk_name ?ds)
      = [''Rust'']"
    by code_simp
  have k1: "keys_ok ?st1" by code_simp
  have v2: "validateResume ?b2 = None" by code_simp
  have s2: "rb_skills ?b2 = Some [sample_skill ''Python'' None (Some 2)]"
    by (simp add: sample_resume_body_def)
  have d2: "distinct (map sk_name [sample_skill ''Python'' None (Some 2)])"
    by simp
  have own: "own_resume ?st1 applicant2 3 \<noteq> None" by code_simp
  from resume_skills_request_fails[OF k v s d, of applicant2 None 3] obtain st' new where
    c: "create_resume sample_db applicant2 ?b1 None
          = (Inl (server_error ''Failed to create resume''), st')"
      "linked_skills st' (next_resume_id sample_db) = map supplied_skill ?ds"
      "skills st' = skills sample_db @ new"
      "map skill_name new
         = filter (\<lambda>n. n \<notin> skill_name ` set (skills sample_db)) (map sk_name ?ds)"
    by blast
  from c(1) have answer1: "fst (create_resume sample_db applicant2 ?b1 None)
      = Inl \<lparr>status = 500, error = Text ''Failed to create resume''\<rparr>"
    by (simp add: server_error_def)
  from c(1,2) n have first: "linked_skills ?st1 3 = map supplied_skill ?ds"
    by simp
  from c(1,3,4) lacking old have taxonomy:
    "map skill_name (skills ?st1) = map fst sample_skills @ [''Rust'']"
    by simp
  from own obtain r0 where "own_resume ?st1 applicant2 3 = Some r0" by blast
  with resume_skills_request_fails[OF k1 v2 s2 d2, of applicant2 None 3] obtain st'' where
    c2: "update_resume ?st1 applicant2 3 ?b2 None
           = (Inl (server_error ''Failed to update resume''), st'')"
      "linked_skills st'' 3 = map supplied_skill [sample_skill ''Python'' None (Some 2)]"
    by blast
  from c2(1) have answer2: "fst (update_resume ?st1 applicant2 3 ?b2 None)
      = Inl \<lparr>status = 500, error = Text ''Failed to update resume''\<rparr>"
    by (simp add: server_error_def)
  from c2 have second: "linked_skills (snd (update_resume ?st1 applicant2 3 ?b2 None)) 3
      = map supplied_skill [sample_skill ''Python'' None (Some 2)]"
    by simp
  from k v answer1 first taxonomy answer2 second show ?thesis
    by (simp add: supplied_skill_def sample_skill_def str_or_def or_else_def)
qed

text \<open>
  Applicant 2 creates a resume with two skill objects of the name React, as beginner
  and as expert.  The second link is refused by the unique key of the table, the
  request fails with 500, and the resume keeps the first link alone.
\<close>

theorem resume_skills_duplicate_names:
  "validateResume (sample_resume_body
        [sample_skill ''React'' (Some ''beginner'') None,
         sample_skill ''React'' (Some ''expert'') None]) = None
   \<and> fst (create_resume sample_db applicant2 (sample_resume_body
        [sample_skill ''React'' (Some ''beginner'') None,
         sample_skill ''React'' (Some ''expert'') None]) None)
      = Inl \<lparr>status = 500, error = Text ''Failed to create resume''\<rparr>
   \<and> linked_skills (snd (create_resume sample_db applicant2 (sample_resume_body
        [sample_skill ''React'' (Some ''beginner'') None,
         sample_skill ''React'' (Some ''expert'') None]) None)) 3
      = [(Some ''React'', ''beginner'', 0)]
   \<and> map supplied_skill [sample_skill ''React'' (Some ''beginner'') None,
         sample_skill ''React'' (Some ''expert'') None]
      = [(Some ''React'', ''beginner'', 0), (Some ''React'', ''expert'', 0)]"
  by code_simp

section \<open>Properties of the AI routes\<close>


section \<open>The public list of jobs\<close>

text \<open>
  C3.  The request \<^verbatim>\<open>GET /api/jobs?location=Remote&employment_type=contract&page=1&limit=10\<close>
  on a store whose only job is active, remote and a contract: the answer is 500
  \<^verbatim>\<open>'Failed to fetch jobs'\<close>.  Without the \<^verbatim>\<open>location\<close> filter the same request
  is answered with that job and the pagination of one item on one page.
\<close>

theorem list_jobs_location_filter:
  "list_jobs (\<lambda>column direction rows. Some rows) sample_db
     \<lparr>q_page = 1, q_limit = 10, q_location = Some ''Remote'',
      q_employment_type = Some ''contract'', q_experience_level = None,
      q_salary_min = None, q_salary_max = None, q_search = None,
      q_sort = ''created_at'', q_order = ''DESC''\<rparr>
   = Inl \<lparr>status = 500, error = Text ''Failed to fetch jobs''\<rparr>
   \<and> list_jobs (\<lambda>column direction rows. Some rows) sample_db
     \<lparr>q_page = 1, q_limit = 10, q_location = None,
      q_employment_type = Some ''contract'', q_experience_level = None,
      q_salary_min = None, q_salary_max = None, q_search = None,
      q_sort = ''created_at'', q_order = ''DESC''\<rparr>
   = Inr \<lparr>page_rows = [sample_job],
          page_pagination = \<lparr>current_page = 1, total_pages = Some 1, total_items = 1,
                              items_per_page = 10\<rparr>\<rparr>"
proof -
  have pages: "\<lceil>(1 :: rat) / 10\<rceil> = 1"
    by (rule ceiling_unique) simp_all
  show ?thesis
    by (simp add: list_jobs_def jobs_where_def given_def server_error_def sample_data pages)
qed

end
